theory Spec2Isabelle
  imports Main "HOL-Library.AList"
begin

section \<open>JavaScript values\<close>

text \<open>
  The store is a JavaScript class; its inputs (the options object, the session payloads) are
  untyped JavaScript values, and several of its branches depend on their run-time type.
  A value is modelled by the datatype \<open>jsval\<close>:
  \<^item> a finite number is named by the decimal numeral JavaScript writes for it, the shortest
    one that reads back as the number: \<open>Num n\<close> is an integral number, \<open>Fraction m k\<close> the
    number \<open>m / 10^k\<close> with \<open>k > 0\<close> digits after the point, the last of them not \<open>0\<close>.
    An integer below \<open>2^53\<close> in magnitude is the numeral of itself. The other numbers are
    \<open>Infinity\<close>, \<open>MinusInfinity\<close> and \<open>NaN\<close>; a negative zero is not told from zero;
  \<^item> a string is either spelled out (\<open>Chars\<close>, a list of code units below 256) or is the
    text \<open>Date.prototype.toISOString\<close> gives for a time value (\<open>IsoText t\<close>, \<open>t\<close> in
    milliseconds since the epoch), whose characters are not spelled out;
  \<^item> \<open>DateObj (Some t)\<close> is a \<open>Date\<close> object with time value \<open>t\<close>, \<open>DateObj None\<close> an
    invalid \<open>Date\<close>;
  \<^item> an object is the association list of its own properties, in property order;
    functions, dates and arrays carry no named properties.

  The built-in functions are those of Node.js (the V8 engine), in a process whose time zone
  is UTC.
\<close>

datatype jstring = Chars string | IsoText int

datatype jsval =
    Undefined
  | Null
  | Bool bool
  | Num int
  | Fraction int nat
  | Infinity
  | MinusInfinity
  | NaN
  | Str jstring
  | DateObj "int option"
  | Arr "jsval list"
  | Obj "(string \<times> jsval) list"
  | Func

fun typeof :: "jsval \<Rightarrow> string" where
  "typeof Undefined = ''undefined''"
| "typeof Null = ''object''"
| "typeof (Bool b) = ''boolean''"
| "typeof (Num n) = ''number''"
| "typeof (Fraction m k) = ''number''"
| "typeof Infinity = ''number''"
| "typeof MinusInfinity = ''number''"
| "typeof NaN = ''number''"
| "typeof (Str s) = ''string''"
| "typeof (DateObj t) = ''object''"
| "typeof (Arr xs) = ''object''"
| "typeof (Obj kvs) = ''object''"
| "typeof Func = ''function''"

text \<open>Truthiness, as \<open>||\<close> tests it.\<close>

fun truthy :: "jsval \<Rightarrow> bool" where
  "truthy Undefined = False"
| "truthy Null = False"
| "truthy (Bool b) = b"
| "truthy (Num n) = (n \<noteq> 0)"
| "truthy (Fraction m k) = (m \<noteq> 0)"
| "truthy Infinity = True"
| "truthy MinusInfinity = True"
| "truthy NaN = False"
| "truthy (Str (Chars s)) = (s \<noteq> [])"
| "truthy (Str (IsoText t)) = True"
| "truthy (DateObj t) = True"
| "truthy (Arr xs) = True"
| "truthy (Obj kvs) = True"
| "truthy Func = True"

text \<open>\<open>a || b\<close>\<close>

definition js_or :: "jsval \<Rightarrow> jsval \<Rightarrow> jsval" where
  "js_or a b = (if truthy a then a else b)"

text \<open>
  \<open>o?.k\<close>: \<open>undefined\<close> when \<open>o\<close> is \<open>undefined\<close> or \<open>null\<close>, else the property (which a
  value without that property answers with \<open>undefined\<close>).
\<close>

fun opt_chain :: "jsval \<Rightarrow> string \<Rightarrow> jsval" where
  "opt_chain (Obj kvs) k = (case map_of kvs k of None \<Rightarrow> Undefined | Some v \<Rightarrow> v)"
| "opt_chain v k = Undefined"

text \<open>The exceptions a JavaScript built-in or a property access raises.\<close>

datatype exn = TypeError | SyntaxError

text \<open>\<open>o.k\<close>: a \<open>TypeError\<close> when \<open>o\<close> is \<open>undefined\<close> or \<open>null\<close>.\<close>

fun member :: "jsval \<Rightarrow> string \<Rightarrow> exn + jsval" where
  "member Undefined k = Inl TypeError"
| "member Null k = Inl TypeError"
| "member v k = Inr (opt_chain v k)"

subsection \<open>Numbers read from digits\<close>

text \<open>
  A JavaScript number is a double. The number that a run of decimal digits denotes is the
  double nearest to the integer they spell (ties go to the even significand; beyond the
  largest double the result is infinite). \<open>nearest_double\<close> gives the value of that double,
  \<open>shortest_numeral\<close> the numeral JavaScript writes for it: among the numerals with the
  fewest significant digits that read back as the double, the one nearest to its value.
  An integer below \<open>2^53\<close> is a double, and its own numeral.
\<close>

fun bit_length :: "nat \<Rightarrow> nat" where
  "bit_length n = (if n = 0 then 0 else Suc (bit_length (n div 2)))"

declare bit_length.simps [simp del]

definition nearest_double :: "nat \<Rightarrow> nat option" where
  "nearest_double n =
     (if n < 2 ^ 53 then Some n
      else let e = bit_length n - 53; q = n div 2 ^ e; r = n mod 2 ^ e;
               m = (if 2 ^ e < 2 * r \<or> (2 * r = 2 ^ e \<and> odd q) then q + 1 else q) * 2 ^ e
           in if m < 2 ^ 1024 then Some m else None)"

fun digit_count :: "nat \<Rightarrow> nat" where
  "digit_count n = (if n < 10 then 1 else Suc (digit_count (n div 10)))"

declare digit_count.simps [simp del]

text \<open>
  The two numerals with \<open>k\<close> significant digits next to \<open>x\<close>, the nearer one first (of two
  equally near ones, the one whose last digit is even).
\<close>

definition candidates :: "nat \<Rightarrow> nat \<Rightarrow> nat list" where
  "candidates x k =
     (let p = 10 ^ (digit_count x - k); lo = (x div p) * p; hi = lo + p
      in if 2 * (x - lo) < p \<or> (2 * (x - lo) = p \<and> even (x div p)) then [lo, hi] else [hi, lo])"

definition shortest_numeral :: "nat \<Rightarrow> nat" where
  "shortest_numeral x =
     (case find (\<lambda>c. nearest_double c = Some x) (concat (map (candidates x) [1..<18])) of
        Some c \<Rightarrow> c
      | None \<Rightarrow> x)"

text \<open>The number JavaScript makes of the integer \<open>n\<close>.\<close>

definition integral :: "int \<Rightarrow> jsval" where
  "integral n =
     (if \<bar>n\<bar> < 2 ^ 53 then Num n
      else case nearest_double (nat \<bar>n\<bar>) of
             None \<Rightarrow> (if n < 0 then MinusInfinity else Infinity)
           | Some x \<Rightarrow> Num (sgn n * int (shortest_numeral x)))"

subsection \<open>The calendar\<close>

text \<open>
  The number of days from 1 January 1970 to the first day of month \<open>m\<close> (1 to 12) of year
  \<open>y\<close> in the proleptic Gregorian calendar, and the year a time value (in milliseconds, UTC)
  falls in.
\<close>

definition days_from_civil :: "int \<Rightarrow> int \<Rightarrow> int" where
  "days_from_civil y m =
     (let y' = (if m \<le> 2 then y - 1 else y);
          era = y' div 400;
          yoe = y' - era * 400;
          doy = (153 * (if 2 < m then m - 3 else m + 9) + 2) div 5;
          doe = yoe * 365 + yoe div 4 - yoe div 100 + doy
      in era * 146097 + doe - 719468)"

definition year_of :: "int \<Rightarrow> int" where
  "year_of t =
     (let z = t div 86400000 + 719468;
          era = z div 146097;
          doe = z - era * 146097;
          yoe = (doe - doe div 1460 + doe div 36524 - doe div 146096) div 365;
          doy = doe - (365 * yoe + yoe div 4 - yoe div 100);
          mp = (5 * doy + 2) div 153
      in yoe + era * 400 + (if mp < 10 then 0 else 1))"

subsection \<open>parseInt with radix 10\<close>

text \<open>White space as \<open>parseInt\<close> skips it, among the code units below 256.\<close>

definition is_space :: "char \<Rightarrow> bool" where
  "is_space c =
     (c \<in> set [CHR '' '', CHR 0x09, CHR 0x0A, CHR 0x0B, CHR 0x0C, CHR 0x0D, CHR 0xA0])"

definition is_digit :: "char \<Rightarrow> bool" where
  "is_digit c = (c \<in> set ''0123456789'')"

definition digit_value :: "char \<Rightarrow> int" where
  "digit_value c = int (of_char c) - 48"

definition digits_value :: "string \<Rightarrow> int" where
  "digits_value ds = foldl (\<lambda>a c. 10 * a + digit_value c) 0 ds"

text \<open>
  On a string: leading white space is skipped, one sign is read, then the longest run of
  decimal digits; no digit gives \<open>NaN\<close>.
\<close>

definition parseInt_chars :: "string \<Rightarrow> jsval" where
  "parseInt_chars s =
     (let t = dropWhile is_space s;
          neg = (case t of c # r \<Rightarrow> c = CHR ''-'' | [] \<Rightarrow> False);
          u = (case t of c # r \<Rightarrow> if c = CHR ''-'' \<or> c = CHR ''+'' then r else t | [] \<Rightarrow> []);
          ds = takeWhile is_digit u
      in if ds = [] then NaN
         else integral (if neg then - digits_value ds else digits_value ds))"

fun leading_digit :: "nat \<Rightarrow> nat" where
  "leading_digit n = (if n < 10 then n else leading_digit (n div 10))"

declare leading_digit.simps [simp del]

text \<open>
  \<open>parseInt(v, 10)\<close> reads the string of \<open>v\<close>. The string of a number is its numeral, written
  in full when the number is at least \<open>10^-6\<close> and below \<open>10^21\<close> in magnitude, and with one
  digit before the point and an exponent otherwise, so that \<open>parseInt\<close> reads
  \<^item> an integral number below \<open>10^21\<close> as itself, a fraction of at least \<open>10^-6\<close> as its
    integral part;
  \<^item> the leading digit of any other finite number;
  \<^item> no digit from \<open>Infinity\<close>, \<open>-Infinity\<close> and \<open>NaN\<close>.

  The string of an array joins those of its elements with commas, so that the numeral read is
  that of its first element; the text of \<open>toISOString\<close> starts with the year. The strings of
  \<open>undefined\<close>, \<open>null\<close>, booleans, dates, plain objects and functions start with no digit.
  (The constructor applies \<open>parseInt\<close> to an environment variable, which is a spelled-out
  string or \<open>undefined\<close>, and to a value whose \<open>typeof\<close> is \<open>number\<close>.)
\<close>

fun parseInt :: "jsval \<Rightarrow> jsval" where
  "parseInt (Str (Chars s)) = parseInt_chars s"
| "parseInt (Str (IsoText t)) = Num (year_of t)"
| "parseInt (Num n) =
     (case integral n of
        Num c \<Rightarrow> if \<bar>c\<bar> < 10 ^ 21 then Num c else Num (sgn c * int (leading_digit (nat \<bar>c\<bar>)))
      | v \<Rightarrow> NaN)"
| "parseInt (Fraction m k) =
     (if 10 ^ k \<le> \<bar>m\<bar> * 10 ^ 6 then integral (sgn m * (\<bar>m\<bar> div 10 ^ k))
      else Num (sgn m * int (leading_digit (nat \<bar>m\<bar>))))"
| "parseInt (Arr (x # xs)) = parseInt x"
| "parseInt v = NaN"

section \<open>Configuration\<close>

text \<open>
  \<open>this.settings\<close>: before \<open>sanitizeConfiguration\<close> its fields hold whatever the environment,
  the caller and the defaults gave (\<open>jsval\<close>); after it they are strings, and the port what
  \<open>parseInt\<close> returned for a number: an integer, or \<open>NaN\<close> (\<open>None\<close>).
\<close>

record ('s, 'n) databaseConfig =
  host :: 's
  port :: 'n
  user :: 's
  password :: 's
  database :: 's

record 's columnNames =
  sessionID :: 's
  expires :: 's
  data :: 's
  user_column :: 's

record ('s, 'n) settings =
  databaseConfig :: "('s, 'n) databaseConfig"
  tableName :: 's
  columnNames :: "'s columnNames"

type_synonym raw_settings = "(jsval, jsval) settings"
type_synonym store_settings = "(jstring, int option) settings"

definition databaseDefaults :: "(jsval, jsval) databaseConfig" where
  "databaseDefaults =
     \<lparr> host = Str (Chars ''localhost''),
       port = Num 3306,
       user = Str (Chars ''auth_express_mysql_test_user''),
       password = Str (Chars ''password123456''),
       database = Str (Chars ''auth_express_mysql_testing'') \<rparr>"

definition schemaDefaults :: "(jsval \<times> jsval columnNames)" where
  "schemaDefaults =
     (Str (Chars ''SESSIONS''),
      \<lparr> sessionID = Str (Chars ''SESSION_ID''),
        expires = Str (Chars ''EXPIRES''),
        data = Str (Chars ''DATA''),
        user_column = Str (Chars ''USER'') \<rparr>)"

text \<open>\<open>process.env\<close>: a variable that is set holds a string.\<close>

type_synonym env = "string \<rightharpoonup> string"

definition env_var :: "env \<Rightarrow> string \<Rightarrow> jsval" where
  "env_var e k = (case e k of None \<Rightarrow> Undefined | Some s \<Rightarrow> Str (Chars s))"

text \<open>The settings the constructor assembles, in priority order, before any check.\<close>

definition resolve :: "env \<Rightarrow> jsval \<Rightarrow> raw_settings" where
  "resolve e configOptions =
     \<lparr> databaseConfig =
         \<lparr> host = js_or (js_or (env_var e ''HOST'') (opt_chain configOptions ''host''))
                     (host databaseDefaults),
           port = js_or (js_or (parseInt (env_var e ''DATABASE_PORT''))
                               (opt_chain configOptions ''port''))
                     (port databaseDefaults),
           user = js_or (js_or (env_var e ''DATABASE_USER'') (opt_chain configOptions ''user''))
                     (user databaseDefaults),
           password = js_or (js_or (env_var e ''DATABASE_PASSWORD'')
                                   (opt_chain configOptions ''password''))
                     (password databaseDefaults),
           database = js_or (js_or (env_var e ''DATABASE_NAME'')
                                   (opt_chain configOptions ''database''))
                     (database databaseDefaults) \<rparr>,
       tableName = js_or (opt_chain configOptions ''tableName'') (fst schemaDefaults),
       columnNames =
         \<lparr> sessionID = js_or (opt_chain (opt_chain configOptions ''columnNames'') ''sessionID'')
                          (Str (Chars ''SESSION_ID'')),
           expires = js_or (opt_chain (opt_chain configOptions ''columnNames'') ''expires'')
                          (Str (Chars ''EXPIRES'')),
           data = js_or (opt_chain (opt_chain configOptions ''columnNames'') ''data'')
                          (Str (Chars ''DATA'')),
           user_column = js_or (opt_chain (opt_chain configOptions ''columnNames'') ''user'')
                          (Str (Chars ''USER'')) \<rparr> \<rparr>"

text \<open>
  \<open>sanitizeConfiguration\<close>: the checks in the order of the source; \<open>Inl message\<close> is
  \<open>throw Error(message)\<close>. The message for the table name reads \<open>typeof this.tableName\<close>,
  a property the store does not have, so it reports \<open>undefined\<close>.
\<close>

definition string_of :: "jsval \<Rightarrow> jstring" where
  "string_of v = (case v of Str s \<Rightarrow> s | _ \<Rightarrow> Chars [])"

definition integer_of :: "jsval \<Rightarrow> int option" where
  "integer_of v = (case v of Num n \<Rightarrow> Some n | _ \<Rightarrow> None)"

definition sanitizeConfiguration :: "raw_settings \<Rightarrow> string + store_settings" where
  "sanitizeConfiguration s =
     (let dc = databaseConfig s; cn = columnNames s in
      if typeof (host dc) \<noteq> ''string'' then
        Inl (''The database host must be a string. Received: '' @ typeof (host dc))
      else if typeof (port dc) \<noteq> ''number'' then
        Inl (''The database port must be coercible to an integer. Received: '' @ typeof (port dc))
      else if typeof (user dc) \<noteq> ''string'' then
        Inl (''The database user must be a string. Received: '' @ typeof (user dc))
      else if typeof (password dc) \<noteq> ''string'' then
        Inl (''The database user password must be a string. Received: '' @ typeof (password dc))
      else if typeof (database dc) \<noteq> ''string'' then
        Inl (''The database name must be a string. Received: '' @ typeof (database dc))
      else if typeof (tableName s) \<noteq> ''string'' then
        Inl (''The session table name must be a string. Received: '' @ typeof Undefined)
      else if typeof (sessionID cn) \<noteq> ''string'' then
        Inl (''The table column name for sessionID must be a string. Received: ''
             @ typeof (sessionID cn))
      else if typeof (expires cn) \<noteq> ''string'' then
        Inl (''The table column name for expires must be a string. Received: ''
             @ typeof (expires cn))
      else if typeof (data cn) \<noteq> ''string'' then
        Inl (''The table column name for data must be a string. Received: '' @ typeof (data cn))
      else if typeof (user_column cn) \<noteq> ''string'' then
        Inl (''The table column name for user must be a string. Received: ''
             @ typeof (user_column cn))
      else
        Inr \<lparr> databaseConfig =
                \<lparr> host = string_of (host dc),
                  port = integer_of (parseInt (port dc)),
                  user = string_of (user dc),
                  password = string_of (password dc),
                  database = string_of (database dc) \<rparr>,
              tableName = string_of (tableName s),
              columnNames =
                \<lparr> sessionID = string_of (sessionID cn),
                  expires = string_of (expires cn),
                  data = string_of (data cn),
                  user_column = string_of (user_column cn) \<rparr> \<rparr>)"

text \<open>\<open>new AuthExpressStore(configOptions)\<close> in the environment \<open>e\<close>.\<close>

definition AuthExpressStore :: "env \<Rightarrow> jsval \<Rightarrow> string + store_settings" where
  "AuthExpressStore e configOptions = sanitizeConfiguration (resolve e configOptions)"

section \<open>JSON and dates\<close>

text \<open>
  The text of a JSON document is represented by its syntax tree. A string in it is a
  \<open>jstring\<close>: \<open>JSON.stringify\<close> writes a valid \<open>Date\<close> as its \<open>toISOString\<close> text.
  A number in it is the numeral of a finite number (\<open>JNum\<close>, \<open>JDec\<close>).
\<close>

datatype json =
    JNull
  | JBool bool
  | JNum int
  | JDec int nat
  | JStr jstring
  | JArr "json list"
  | JObj "(string \<times> json) list"

text \<open>
  \<open>JSON.stringify\<close>: \<open>None\<close> is the result \<open>undefined\<close> (for \<open>undefined\<close> and for a function).
  In an array such a value is written \<open>null\<close>; in an object its property is left out.
  \<open>NaN\<close>, the infinities and an invalid date are written \<open>null\<close>.
\<close>

fun stringify :: "jsval \<Rightarrow> json option"
  and stringify_elements :: "jsval list \<Rightarrow> json list"
  and stringify_properties :: "(string \<times> jsval) list \<Rightarrow> (string \<times> json) list"
where
  "stringify Undefined = None"
| "stringify Func = None"
| "stringify Null = Some JNull"
| "stringify (Bool b) = Some (JBool b)"
| "stringify (Num n) = Some (JNum n)"
| "stringify (Fraction m k) = Some (JDec m k)"
| "stringify Infinity = Some JNull"
| "stringify MinusInfinity = Some JNull"
| "stringify NaN = Some JNull"
| "stringify (Str s) = Some (JStr s)"
| "stringify (DateObj None) = Some JNull"
| "stringify (DateObj (Some t)) = Some (JStr (IsoText t))"
| "stringify (Arr xs) = Some (JArr (stringify_elements xs))"
| "stringify (Obj kvs) = Some (JObj (stringify_properties kvs))"
| "stringify_elements [] = []"
| "stringify_elements (x # xs) =
     (case stringify x of None \<Rightarrow> JNull | Some j \<Rightarrow> j) # stringify_elements xs"
| "stringify_properties [] = []"
| "stringify_properties ((k, v) # kvs) =
     (case stringify v of
        None \<Rightarrow> stringify_properties kvs
      | Some j \<Rightarrow> (k, j) # stringify_properties kvs)"

text \<open>The value \<open>JSON.parse\<close> builds from a document.\<close>

fun value_of :: "json \<Rightarrow> jsval"
  and values_of :: "json list \<Rightarrow> jsval list"
  and properties_of :: "(string \<times> json) list \<Rightarrow> (string \<times> jsval) list"
where
  "value_of JNull = Null"
| "value_of (JBool b) = Bool b"
| "value_of (JNum n) = Num n"
| "value_of (JDec m k) = Fraction m k"
| "value_of (JStr s) = Str s"
| "value_of (JArr js) = Arr (values_of js)"
| "value_of (JObj kjs) = Obj (properties_of kjs)"
| "values_of [] = []"
| "values_of (j # js) = value_of j # values_of js"
| "properties_of [] = []"
| "properties_of ((k, j) # kjs) = (k, value_of j) # properties_of kjs"

text \<open>
  \<open>Date.parse(v)\<close> reads the string of \<open>v\<close>; \<open>None\<close> is \<open>NaN\<close>. A text that is not in the
  ISO format is read by the engine's own parser, which needs a number in the text to make a
  date, reads a year from 0 to 49 as 2000 to 2049 and a year from 50 to 99 as 1950 to 1999,
  and gives up at a sign that follows a number.

  \<^item> The \<open>toISOString\<close> text gives the time value back exactly.
  \<^item> The string of a \<open>Date\<close> (\<open>toString\<close>) shows whole seconds only, and the year with its
    sign: a \<open>Date\<close> comes back with its milliseconds cut off; one in the years 0 to 99 comes
    back 2000 or 1900 years later; one before the year 0 is not read. The time values
    \<open>-62167219200000\<close>, \<open>-60589296000000\<close> and \<open>-59011459200000\<close> are the starts of the years
    0, 50 and 100, and 2000 and 1900 years from there on last \<open>63113904000000\<close> and
    \<open>59958144000000\<close> milliseconds (\<open>year_starts\<close> below).
  \<^item> The strings of \<open>undefined\<close>, \<open>null\<close>, \<open>NaN\<close>, the infinities, booleans, an invalid
    \<open>Date\<close>, a plain object, an empty array and of a string without a digit hold no number.
  \<^item> The string of a number is its numeral (\<open>legacy_date\<close>).
  \<^item> What is made of a string that holds a digit, of an array with elements or of the source
    text of a function is not modelled: the model answers \<open>NaN\<close>, and no theorem speaks of
    such an expiry (\<open>expiry_covered\<close>).
\<close>

definition time_clip :: "int \<Rightarrow> int option" where
  "time_clip t = (if \<bar>t\<bar> \<le> 8640000000000000 then Some t else None)"

definition two_digit_year :: "int \<Rightarrow> int" where
  "two_digit_year y =
     (if 0 \<le> y \<and> y \<le> 49 then y + 2000 else if 50 \<le> y \<and> y \<le> 99 then y + 1900 else y)"

text \<open>
  The date made of the numbers \<open>a\<close> and \<open>b\<close> read from a text with no month name (for a text
  with one number, \<open>b\<close> is 1): when \<open>a\<close> can be a day of the month (1 to 31), it is taken as
  the month and \<open>b\<close> as the day, in the year 2001; otherwise \<open>a\<close> is the year and \<open>b\<close> the
  month. A month must be from 1 to 12 and a day from 1 to 31.
\<close>

definition legacy_date :: "int \<Rightarrow> int \<Rightarrow> int option" where
  "legacy_date a b =
     (if 1 \<le> a \<and> a \<le> 31
      then (if a \<le> 12 \<and> 1 \<le> b \<and> b \<le> 31
            then time_clip ((days_from_civil 2001 a + b - 1) * 86400000) else None)
      else (if 1 \<le> b \<and> b \<le> 12
            then time_clip (days_from_civil (two_digit_year a) b * 86400000) else None))"

text \<open>The number a run of digits is read as: its first nine significant digits.\<close>

fun first9 :: "nat \<Rightarrow> nat" where
  "first9 n = (if n < 10 ^ 9 then n else first9 (n div 10))"

declare first9.simps [simp del]

text \<open>
  A numeral written with an exponent holds a letter after its first number and is not read.
  A minus sign before six digits starts an ISO year; any other sign is skipped. A numeral
  with a point is read as two numbers.
\<close>

fun Date_parse :: "jsval \<Rightarrow> int option" where
  "Date_parse (DateObj (Some t)) =
     (if t < -62167219200000 then None
      else Some ((t div 1000) * 1000
                 + (if t < -60589296000000 then 63113904000000
                    else if t < -59011459200000 then 59958144000000 else 0)))"
| "Date_parse (Str (IsoText t)) = Some t"
| "Date_parse (Num n) =
     (case integral n of
        Num c \<Rightarrow>
          if 10 ^ 21 \<le> \<bar>c\<bar> then None
          else legacy_date (if c < 0 \<and> 100000 \<le> \<bar>c\<bar> \<and> \<bar>c\<bar> \<le> 999999 then c
                            else int (first9 (nat \<bar>c\<bar>))) 1
      | v \<Rightarrow> None)"
| "Date_parse (Fraction m k) =
     (let a = \<bar>m\<bar> div 10 ^ k; f = \<bar>m\<bar> mod 10 ^ k
      in if \<bar>m\<bar> * 10 ^ 6 < 10 ^ k then None
         else legacy_date (if m < 0 \<and> 100000 \<le> a \<and> a \<le> 999999 then - a
                           else int (first9 (nat a)))
                          (int (first9 (nat f))))"
| "Date_parse v = None"

text \<open>\<open>new Date(n)\<close>\<close>

definition new_Date :: "int option \<Rightarrow> jsval" where
  "new_Date n = DateObj n"

text \<open>
  \<open>o.k = v\<close> in strict mode (a class body is strict), giving \<open>o\<close> after the assignment:
  a \<open>TypeError\<close> on \<open>undefined\<close>, \<open>null\<close> and on a primitive. An existing property keeps its
  place, a new one goes last. A named property put on an array, date or function is not
  represented.
\<close>

fun assign :: "jsval \<Rightarrow> string \<Rightarrow> jsval \<Rightarrow> exn + jsval" where
  "assign (Obj kvs) k v = Inr (Obj (AList.update k v kvs))"
| "assign (Arr xs) k v = Inr (Arr xs)"
| "assign (DateObj t) k v = Inr (DateObj t)"
| "assign Func k v = Inr Func"
| "assign w k v = Inl TypeError"

section \<open>The database\<close>

text \<open>
  The MySQL server is the environment of the store. It is modelled as far as the statements
  of the store go: one table, the one \<open>createTable\<close> makes for the settings of the store
  (\<open>None\<close>: the table does not exist), whose rows are kept in insertion order. The session
  identifier is the primary key. Column widths, collations and the order of an unordered
  \<open>SELECT\<close> are not modelled.
\<close>

text \<open>
  A stored text is a JSON document (\<open>Doc\<close>) or a text that is not one (\<open>Raw\<close>, spelled
  out), such as the empty text.
\<close>

datatype mediumtext = Doc json | Raw string

record row =
  SESSION_ID :: string
  EXPIRES :: int
  DATA :: mediumtext
  USER :: jstring

type_synonym table = "row list option"

datatype cell = CInt int | CStr jstring | CText mediumtext

text \<open>A row of a result: its fields, named as the statement names them.\<close>

type_synonym packet = "(jstring \<times> cell) list"

datatype result = Rows "packet list" | Ok nat

datatype dberror = ConnectionError | NoSuchTable | BadField | BadNull | Unsupported

definition on_table :: "table \<Rightarrow> (row list \<Rightarrow> (dberror + result) \<times> row list)
                        \<Rightarrow> (dberror + result) \<times> table" where
  "on_table t f =
     (case t of
        None \<Rightarrow> (Inl NoSuchTable, None)
      | Some rows \<Rightarrow> (let (r, rows') = f rows in (r, Some rows')))"

definition full_packet :: "jstring columnNames \<Rightarrow> row \<Rightarrow> packet" where
  "full_packet cn r =
     [(sessionID cn, CStr (Chars (SESSION_ID r))),
      (expires cn, CInt (EXPIRES r)),
      (data cn, CText (DATA r)),
      (user_column cn, CStr (USER r))]"

text \<open>\<^verbatim>\<open>SELECT * FROM ?? WHERE ?? >= ?\<close>\<close>

definition select_where_ge :: "jstring columnNames \<Rightarrow> int \<Rightarrow> table \<Rightarrow> (dberror + result) \<times> table" where
  "select_where_ge cn now t =
     on_table t (\<lambda>rows. (Inr (Rows (map (full_packet cn) (filter (\<lambda>r. EXPIRES r \<ge> now) rows))), rows))"

text \<open>\<^verbatim>\<open>SELECT * FROM ?? WHERE ?? < ?\<close>\<close>

definition select_where_lt :: "jstring columnNames \<Rightarrow> int \<Rightarrow> table \<Rightarrow> (dberror + result) \<times> table" where
  "select_where_lt cn now t =
     on_table t (\<lambda>rows. (Inr (Rows (map (full_packet cn) (filter (\<lambda>r. EXPIRES r < now) rows))), rows))"

text \<open>\<^verbatim>\<open>SELECT COUNT(*) AS LEN FROM ?? WHERE ?? >= ?\<close>\<close>

definition count_where_ge :: "int \<Rightarrow> table \<Rightarrow> (dberror + result) \<times> table" where
  "count_where_ge now t =
     on_table t (\<lambda>rows.
       (Inr (Rows [[(Chars ''LEN'', CInt (int (length (filter (\<lambda>r. EXPIRES r \<ge> now) rows))))]]), rows))"

text \<open>\<^verbatim>\<open>SELECT COUNT(*) AS LEN FROM ?? WHERE ?? < ?\<close>\<close>

definition count_where_lt :: "int \<Rightarrow> table \<Rightarrow> (dberror + result) \<times> table" where
  "count_where_lt now t =
     on_table t (\<lambda>rows.
       (Inr (Rows [[(Chars ''LEN'', CInt (int (length (filter (\<lambda>r. EXPIRES r < now) rows))))]]), rows))"


definition delete_where :: "(row \<Rightarrow> bool) \<Rightarrow> table \<Rightarrow> (dberror + result) \<times> table" where
  "delete_where P t =
     on_table t (\<lambda>rows. (Inr (Ok (length (filter P rows))), filter (\<lambda>r. \<not> P r) rows))"

text \<open>\<^verbatim>\<open>DELETE FROM ?? WHERE ?? = ?\<close> on the session identifier\<close>

definition delete_by_id :: "string \<Rightarrow> table \<Rightarrow> (dberror + result) \<times> table" where
  "delete_by_id sid = delete_where (\<lambda>r. SESSION_ID r = sid)"



text \<open>\<^verbatim>\<open>SELECT ?? FROM ?? WHERE ?? = ? AND ?? >= ?\<close>: the data column of the matching rows\<close>

definition select_data :: "jstring columnNames \<Rightarrow> string \<Rightarrow> int \<Rightarrow> table \<Rightarrow> (dberror + result) \<times> table" where
  "select_data cn sid now t =
     on_table t (\<lambda>rows.
       (Inr (Rows (map (\<lambda>r. [(data cn, CText (DATA r))])
                       (filter (\<lambda>r. SESSION_ID r = sid \<and> EXPIRES r \<ge> now) rows))), rows))"

text \<open>
  How the client library writes a value bound to a \<^verbatim>\<open>?\<close>: \<open>undefined\<close> and \<open>null\<close> as
  \<^verbatim>\<open>NULL\<close>, a string as a quoted literal, a number as its numeral, a boolean as \<^verbatim>\<open>true\<close> or \<^verbatim>\<open>false\<close>,
  \<open>NaN\<close> as the bare word \<^verbatim>\<open>NaN\<close>. Other values (fractions, numbers written with an exponent,
  the infinities, dates, arrays, objects, functions) are not modelled (\<open>SqlOther\<close>).
\<close>

datatype bound = SqlNull | SqlString jstring | SqlNumber int | SqlBool bool | SqlNaN | SqlOther

fun escape :: "jsval \<Rightarrow> bound" where
  "escape Undefined = SqlNull"
| "escape Null = SqlNull"
| "escape (Str s) = SqlString s"
| "escape (Num n) = (if \<bar>n\<bar> < 10 ^ 21 then SqlNumber n else SqlOther)"
| "escape NaN = SqlNaN"
| "escape (Bool b) = SqlBool b"
| "escape v = SqlOther"

fun decimal_nat :: "nat \<Rightarrow> string" where
  "decimal_nat n =
     (if n < 10 then [char_of (48 + n)] else decimal_nat (n div 10) @ [char_of (48 + n mod 10)])"

definition decimal :: "int \<Rightarrow> string" where
  "decimal n = (if n < 0 then CHR ''-'' # decimal_nat (nat (- n)) else decimal_nat (nat n))"

text \<open>
  The columns \<open>createTable\<close> declares, in its order: name, type, \<^verbatim>\<open>not null\<close>,
  \<^verbatim>\<open>primary key\<close>.
\<close>

record column =
  column_name :: jstring
  column_type :: string
  not_null :: bool
  primary_key :: bool

definition declared_columns :: "jstring columnNames \<Rightarrow> column list" where
  "declared_columns cn =
     [\<lparr> column_name = sessionID cn, column_type = ''varchar(128)'', not_null = True, primary_key = True \<rparr>,
      \<lparr> column_name = expires cn, column_type = ''bigint'', not_null = True, primary_key = False \<rparr>,
      \<lparr> column_name = data cn, column_type = ''mediumtext'', not_null = True, primary_key = False \<rparr>,
      \<lparr> column_name = user_column cn, column_type = ''varchar(255)'', not_null = True, primary_key = False \<rparr>]"

text \<open>\<^verbatim>\<open>CREATE TABLE IF NOT EXISTS ?? (...)\<close>\<close>

definition create_table_if_not_exists :: "table \<Rightarrow> (dberror + result) \<times> table" where
  "create_table_if_not_exists t =
     (case t of None \<Rightarrow> (Inr (Ok 0), Some []) | Some rows \<Rightarrow> (Inr (Ok 0), Some rows))"

text \<open>
  What the user column holds for a bound value under \<^verbatim>\<open>INSERT IGNORE\<close>. The column is
  \<^verbatim>\<open>not null\<close>; with \<^verbatim>\<open>IGNORE\<close> the server turns the error for a \<^verbatim>\<open>NULL\<close> in such a
  column into a warning and stores the implicit default of the type, the empty string
  (MySQL reference manual, ``The Effect of IGNORE on Statement Execution'').
  A number is stored as its decimal numeral, \<^verbatim>\<open>true\<close> and \<^verbatim>\<open>false\<close> as \<open>1\<close> and \<open>0\<close>.
  For a value the model does not cover the statement is made to fail with \<open>Unsupported\<close>,
  which is no error of the server: no theorem speaks of such a user reference
  (\<open>user_covered\<close>, \<open>user_modelled\<close>).
\<close>

fun stored_user :: "bound \<Rightarrow> dberror + jstring" where
  "stored_user SqlNull = Inr (Chars [])"
| "stored_user (SqlString u) = Inr u"
| "stored_user (SqlNumber n) = Inr (Chars (decimal n))"
| "stored_user (SqlBool b) = Inr (Chars (if b then ''1'' else ''0''))"
| "stored_user SqlNaN = Inl BadField"
| "stored_user SqlOther = Inl Unsupported"

text \<open>
  \<^verbatim>\<open>INSERT IGNORE INTO ?? (??, ??, ??, ??) VALUES (?, ?, ?, ?)\<close> with the session identifier,
  the serialized session (\<open>None\<close>: \<open>undefined\<close>, written \<^verbatim>\<open>NULL\<close>), the expiry (\<open>None\<close>:
  \<open>NaN\<close>, which the server reads as the name of an unknown column, an error \<^verbatim>\<open>IGNORE\<close>
  does not cover) and the user reference. A row whose key is already in the table is skipped
  without an error.
\<close>

definition insert_ignore :: "string \<Rightarrow> json option \<Rightarrow> int option \<Rightarrow> bound \<Rightarrow> table
                             \<Rightarrow> (dberror + result) \<times> table" where
  "insert_ignore sid sessionData timeExpires usr t =
     on_table t (\<lambda>rows.
       case timeExpires of
         None \<Rightarrow> (Inl BadField, rows)
       | Some e \<Rightarrow>
          (case stored_user usr of
             Inl err \<Rightarrow> (Inl err, rows)
           | Inr u \<Rightarrow>
               if sid \<in> set (map SESSION_ID rows) then (Inr (Ok 0), rows)
               else (Inr (Ok 1),
                     rows @ [\<lparr> SESSION_ID = sid, EXPIRES = e,
                                DATA = (case sessionData of None \<Rightarrow> Raw [] | Some j \<Rightarrow> Doc j),
                                USER = u \<rparr>])))"

text \<open>
  \<^verbatim>\<open>UPDATE ?? SET ?? = ?, ?? = ? WHERE ?? = ?\<close>: data and expiry of the rows with that
  session identifier. Without \<^verbatim>\<open>IGNORE\<close> a \<^verbatim>\<open>NULL\<close> for the data column is an error.
\<close>

definition update_by_id :: "json option \<Rightarrow> int option \<Rightarrow> string \<Rightarrow> table
                            \<Rightarrow> (dberror + result) \<times> table" where
  "update_by_id sessionData timeExpires sid t =
     on_table t (\<lambda>rows.
       case timeExpires of
         None \<Rightarrow> (Inl BadField, rows)
       | Some e \<Rightarrow>
          (case sessionData of
             None \<Rightarrow> (Inl BadNull, rows)
           | Some j \<Rightarrow>
               (Inr (Ok (length (filter (\<lambda>r. SESSION_ID r = sid) rows))),
                map (\<lambda>r. if SESSION_ID r = sid then r\<lparr> DATA := Doc j, EXPIRES := e \<rparr> else r) rows)))"

section \<open>The store\<close>

text \<open>
  The repository holds the class \<open>AuthExpressStore\<close> twice: in full, with every operation
  and its documentation, and in an earlier, shorter form (\<open>index.js\<close>) in which \<open>all\<close>,
  \<open>clear\<close>, \<open>length\<close> and \<open>touch\<close> only call the continuation, \<open>get\<close> selects without
  the expiry filter and \<open>set\<close> is an upsert that binds \<open>null\<close> as expiry. The constructor,
  \<open>sanitizeConfiguration\<close>, \<open>connectToDatabase\<close>, \<open>closeDatabaseConnection\<close>,
  \<open>finalCallback\<close> and \<open>destroy\<close> agree in both, up to what they log. The operations
  below are those of the full class.

  The state an operation runs in: whether the server accepts a connection (when it does not,
  the connection never leaves the state \<open>'disconnected'\<close> and the query fails), the table,
  \<open>this.connection\<close> (\<open>None\<close> before the first operation; otherwise whether its \<open>state\<close> is
  \<open>'disconnected'\<close>), and the trace of what the store did to the outside: connections made,
  statements sent, connections destroyed, and calls of the caller's continuation.
  An operation is modelled from its call to the return of the callback of its query, as one
  step: no other operation of the store starts in between. (The store keeps a single
  reference to a connection, so that operations that overlap would close each other's
  connection; see \<open>overlapping_operations\<close>.)
\<close>

datatype connection_state = Disconnected | Authenticated

datatype reply = Omitted | Result result | Field "cell option" | Session jsval

datatype event = Connect | Query string | DestroyConnection | Callback "dberror option" reply

record state =
  reachable :: bool
  sessions :: table
  connection :: "connection_state option"
  trace :: "event list"

text \<open>An operation ends normally (\<open>None\<close>) or with an exception that leaves it.\<close>

type_synonym outcome = "exn option \<times> state"

text \<open>
  \<open>connectToDatabase\<close>: a new connection object replaces \<open>this.connection\<close>; a failure to
  connect is only logged and leaves the connection \<open>'disconnected'\<close>.
\<close>

definition connectToDatabase :: "state \<Rightarrow> state" where
  "connectToDatabase s =
     s\<lparr> connection := Some (if reachable s then Authenticated else Disconnected),
        trace := trace s @ [Connect] \<rparr>"

text \<open>
  \<open>closeDatabaseConnection\<close>: reading \<open>this.connection.state\<close> is a \<open>TypeError\<close> when no
  connection object was ever made.
\<close>

definition closeDatabaseConnection :: "state \<Rightarrow> outcome" where
  "closeDatabaseConnection s =
     (case connection s of
        None \<Rightarrow> (Some TypeError, s)
      | Some Disconnected \<Rightarrow> (None, s)
      | Some Authenticated \<Rightarrow>
          (None, s\<lparr> connection := Some Disconnected, trace := trace s @ [DestroyConnection] \<rparr>))"

text \<open>
  \<open>finalCallback\<close>: the error slot is \<open>None\<close> for \<open>null\<close> and \<open>undefined\<close>; the caller's
  continuation is recorded in the trace when it is called. What the continuation does is
  its caller's matter and not modelled.
\<close>

definition finalCallback :: "jsval \<Rightarrow> dberror option \<Rightarrow> reply \<Rightarrow> state \<Rightarrow> outcome" where
  "finalCallback callback error dat s =
     (case closeDatabaseConnection s of
        (Some e, s') \<Rightarrow> (Some e, s')
      | (None, s') \<Rightarrow>
          (None, if typeof callback = ''function''
                 then s'\<lparr> trace := trace s' @ [Callback error dat] \<rparr>
                 else s'))"

text \<open>
  \<open>this.connection.query(sql, params, ...)\<close>, up to the call of its callback with
  \<open>(error, result)\<close>: on a connection that is not established the query fails. Every
  operation calls \<open>connectToDatabase\<close> just before, so a connection object exists.
\<close>

definition query :: "string \<Rightarrow> (table \<Rightarrow> (dberror + result) \<times> table) \<Rightarrow> state
                     \<Rightarrow> (dberror + result) \<times> state" where
  "query sql statement s =
     (if connection s = Some Authenticated
      then (let (r, t) = statement (sessions s)
            in (r, s\<lparr> sessions := t, trace := trace s @ [Query sql] \<rparr>))
      else (Inl ConnectionError, s\<lparr> trace := trace s @ [Query sql] \<rparr>))"

definition error_of :: "dberror + result \<Rightarrow> dberror option" where
  "error_of r = (case r of Inl error \<Rightarrow> Some error | Inr result \<Rightarrow> None)"

subsection \<open>The operations\<close>

text \<open>
  Each operation takes the settings of the store, its arguments, the caller's continuation
  (any value: it is called only when it is a function) and, where the source reads
  \<open>Date.now()\<close>, the time \<open>now\<close> in milliseconds.
\<close>

definition all :: "store_settings \<Rightarrow> int \<Rightarrow> jsval \<Rightarrow> state \<Rightarrow> outcome" where
  "all cfg now callback s =
     (let (r, s') = query ''SELECT * FROM ?? WHERE ?? >= ?''
                      (select_where_ge (columnNames cfg) now) (connectToDatabase s)
      in case r of
           Inl error \<Rightarrow> finalCallback callback (Some error) Omitted s'
         | Inr result \<Rightarrow> finalCallback callback None (Result result) s')"



text \<open>
  \<open>JSON.parse(result[0].DATA)\<close>: the argument is the field of the row named \<open>DATA\<close>, or
  \<open>undefined\<close> when the row has no such field; \<open>JSON.parse\<close> reads the string of its
  argument and raises a \<open>SyntaxError\<close> when that is not a JSON document, as for
  \<open>undefined\<close>. The rows \<open>get\<close> receives hold the data column only.
\<close>

fun JSON_parse :: "cell option \<Rightarrow> exn + jsval" where
  "JSON_parse None = Inl SyntaxError"
| "JSON_parse (Some (CText (Doc j))) = Inr (value_of j)"
| "JSON_parse (Some (CText (Raw s))) = Inl SyntaxError"
| "JSON_parse (Some (CInt n)) = Inr (Num n)"
| "JSON_parse (Some (CStr u)) = Inl SyntaxError"

text \<open>
  \<open>sessionData.cookie.expires = new Date(Date.parse(sessionData.cookie.expires))\<close>,
  giving \<open>sessionData\<close> after the assignment.
\<close>

definition restore_expires :: "jsval \<Rightarrow> exn + jsval" where
  "restore_expires sessionData =
     (case member sessionData ''cookie'' of
        Inl e \<Rightarrow> Inl e
      | Inr cookie \<Rightarrow>
         (case member cookie ''expires'' of
            Inl e \<Rightarrow> Inl e
          | Inr timeExpires \<Rightarrow>
             (case assign cookie ''expires'' (new_Date (Date_parse timeExpires)) of
                Inl e \<Rightarrow> Inl e
              | Inr cookie' \<Rightarrow> assign sessionData ''cookie'' cookie')))"

definition get :: "store_settings \<Rightarrow> int \<Rightarrow> string \<Rightarrow> jsval \<Rightarrow> state \<Rightarrow> outcome" where
  "get cfg now sid callback s =
     (let (r, s') = query ''SELECT ?? FROM ?? WHERE ?? = ? AND ?? >= ?''
                      (select_data (columnNames cfg) sid now) (connectToDatabase s)
      in case r of
           Inl error \<Rightarrow> finalCallback callback (Some error) Omitted s'
         | Inr result \<Rightarrow>
            (case result of
               Rows [p] \<Rightarrow>
                 (case JSON_parse (map_of p (Chars ''DATA'')) of
                    Inl e \<Rightarrow> (Some e, s')
                  | Inr parsed \<Rightarrow>
                     (case restore_expires parsed of
                        Inl e \<Rightarrow> (Some e, s')
                      | Inr sessionData \<Rightarrow> finalCallback callback None (Session sessionData) s'))
             | _ \<Rightarrow> finalCallback callback None Omitted s'))"

text \<open>\<open>result[0].LEN\<close>\<close>

fun first_LEN :: "result \<Rightarrow> exn + cell option" where
  "first_LEN (Rows (p # ps)) = Inr (map_of p (Chars ''LEN''))"
| "first_LEN (Rows []) = Inl TypeError"
| "first_LEN (Ok n) = Inl TypeError"

definition length_op :: "store_settings \<Rightarrow> int \<Rightarrow> jsval \<Rightarrow> state \<Rightarrow> outcome" where
  "length_op cfg now callback s =
     (let (r, s') = query ''SELECT COUNT(*) AS LEN FROM ?? WHERE ?? >= ?''
                      (count_where_ge now) (connectToDatabase s)
      in case r of
           Inl error \<Rightarrow> finalCallback callback (Some error) Omitted s'
         | Inr result \<Rightarrow>
            (case first_LEN result of
               Inl e \<Rightarrow> (Some e, s')
             | Inr len \<Rightarrow> finalCallback callback None (Field len) s'))"

text \<open>
  \<open>set\<close>: \<open>session.cookie.expires\<close> is read before anything is sent; the error of the
  query, if any, goes to the continuation.
\<close>

definition set_op :: "store_settings \<Rightarrow> string \<Rightarrow> jsval \<Rightarrow> jsval \<Rightarrow> state \<Rightarrow> outcome" where
  "set_op cfg sid session callback s =
     (let sessionData = stringify session in
      case member session ''cookie'' of
        Inl e \<Rightarrow> (Some e, s)
      | Inr cookie \<Rightarrow>
         (case member cookie ''expires'' of
            Inl e \<Rightarrow> (Some e, s)
          | Inr timeExpires \<Rightarrow>
             (let (r, s') = query ''INSERT IGNORE INTO ?? (??, ??, ??, ??) VALUES (?, ?, ?, ?)''
                              (insert_ignore sid sessionData (Date_parse timeExpires)
                                 (escape (opt_chain (opt_chain session ''passport'') ''user'')))
                              (connectToDatabase s)
              in finalCallback callback (error_of r) Omitted s')))"

definition touch :: "store_settings \<Rightarrow> string \<Rightarrow> jsval \<Rightarrow> jsval \<Rightarrow> state \<Rightarrow> outcome" where
  "touch cfg sid session callback s =
     (let sessionData = stringify session in
      case member session ''cookie'' of
        Inl e \<Rightarrow> (Some e, s)
      | Inr cookie \<Rightarrow>
         (case member cookie ''expires'' of
            Inl e \<Rightarrow> (Some e, s)
          | Inr timeExpires \<Rightarrow>
             (let (r, s') = query ''UPDATE ?? SET ?? = ?, ?? = ? WHERE ?? = ?''
                              (update_by_id sessionData (Date_parse timeExpires) sid)
                              (connectToDatabase s)
              in finalCallback callback (error_of r) Omitted s')))"

definition expired :: "store_settings \<Rightarrow> int \<Rightarrow> jsval \<Rightarrow> state \<Rightarrow> outcome" where
  "expired cfg now callback s =
     (let (r, s') = query ''SELECT * FROM ?? WHERE ?? < ?''
                      (select_where_lt (columnNames cfg) now) (connectToDatabase s)
      in case r of
           Inl error \<Rightarrow> finalCallback callback (Some error) Omitted s'
         | Inr result \<Rightarrow> finalCallback callback None (Result result) s')"

definition expiredLength :: "store_settings \<Rightarrow> int \<Rightarrow> jsval \<Rightarrow> state \<Rightarrow> outcome" where
  "expiredLength cfg now callback s =
     (let (r, s') = query ''SELECT COUNT(*) AS LEN FROM ?? WHERE ?? < ?''
                      (count_where_lt now) (connectToDatabase s)
      in case r of
           Inl error \<Rightarrow> finalCallback callback (Some error) Omitted s'
         | Inr result \<Rightarrow>
            (case first_LEN result of
               Inl e \<Rightarrow> (Some e, s')
             | Inr len \<Rightarrow> finalCallback callback None (Field len) s'))"



definition createTable :: "store_settings \<Rightarrow> jsval \<Rightarrow> state \<Rightarrow> outcome" where
  "createTable cfg callback s =
     (let (r, s') = query ''CREATE TABLE IF NOT EXISTS ?? (?? varchar(128) primary key not null, ?? bigint not null, ?? mediumtext not null, ?? varchar(255) not null)''
                      create_table_if_not_exists (connectToDatabase s)
      in case r of
           Inl error \<Rightarrow> finalCallback callback (Some error) Omitted s'
         | Inr result \<Rightarrow> finalCallback callback None Omitted s')"

subsection \<open>The operations as one family\<close>




section \<open>Notions used in the statements\<close>

text \<open>The last thing an operation did to the outside.\<close>

definition last_event :: "outcome \<Rightarrow> event option" where
  "last_event out = (case rev (trace (snd out)) of [] \<Rightarrow> None | ev # evs \<Rightarrow> Some ev)"

text \<open>What an operation added to the trace of the state it started in.\<close>

definition events :: "state \<Rightarrow> outcome \<Rightarrow> event list" where
  "events s out = drop (length (trace s)) (trace (snd out))"

text \<open>
  A value that \<open>JSON.stringify\<close> and \<open>JSON.parse\<close> give back as it is: \<open>null\<close>, booleans,
  finite numbers, strings, and arrays and objects of such values.
\<close>

fun plain :: "jsval \<Rightarrow> bool"
  and plain_elements :: "jsval list \<Rightarrow> bool"
  and plain_properties :: "(string \<times> jsval) list \<Rightarrow> bool"
where
  "plain Null = True"
| "plain (Bool b) = True"
| "plain (Num n) = True"
| "plain (Fraction m k) = True"
| "plain (Str u) = True"
| "plain (Arr xs) = plain_elements xs"
| "plain (Obj kvs) = plain_properties kvs"
| "plain Undefined = False"
| "plain NaN = False"
| "plain Infinity = False"
| "plain MinusInfinity = False"
| "plain (DateObj t) = False"
| "plain Func = False"
| "plain_elements [] = True"
| "plain_elements (x # xs) = (plain x \<and> plain_elements xs)"
| "plain_properties [] = True"
| "plain_properties ((k, v) # kvs) = (plain v \<and> plain_properties kvs)"

text \<open>
  A session with a dated cookie: an object whose \<open>cookie\<close> is an object whose \<open>expires\<close>
  is a valid \<open>Date\<close> with time value \<open>t\<close>, everything else in it being plain data.
\<close>

definition session_payload :: "jsval \<Rightarrow> int \<Rightarrow> bool" where
  "session_payload p t =
     (case p of
        Obj kvs \<Rightarrow>
          (case map_of kvs ''cookie'' of
             Some (Obj ckvs) \<Rightarrow>
               map_of ckvs ''expires'' = Some (DateObj (Some t))
               \<and> plain_properties (AList.update ''expires'' Null ckvs)
               \<and> plain_properties (AList.update ''cookie'' Null kvs)
           | _ \<Rightarrow> False)
      | _ \<Rightarrow> False)"

text \<open>
  The expiry \<open>set\<close> and \<open>touch\<close> extract from a session: \<open>Date.parse(session.cookie.expires)\<close>;
  \<open>None\<close> when reading it raises or gives \<open>NaN\<close>. For a \<open>Date\<close> from the year 100 on it is
  the time value cut to whole seconds.
\<close>

definition extracted_expiry :: "jsval \<Rightarrow> int option" where
  "extracted_expiry session =
     (case member session ''cookie'' of
        Inl e \<Rightarrow> None
      | Inr cookie \<Rightarrow> (case member cookie ''expires'' of Inl e \<Rightarrow> None | Inr x \<Rightarrow> Date_parse x))"

text \<open>The user reference \<open>set\<close> binds, \<open>session.passport?.user\<close>, as the statement holds it.\<close>

definition bound_user :: "jsval \<Rightarrow> bound" where
  "bound_user session = escape (opt_chain (opt_chain session ''passport'') ''user'')"

text \<open>
  The user reference is one the server stores: none, a string, an integral number below
  \<open>10^21\<close> in magnitude or a boolean.
\<close>

definition user_covered :: "jsval \<Rightarrow> bool" where
  "user_covered session = (case stored_user (bound_user session) of Inl e \<Rightarrow> False | Inr u \<Rightarrow> True)"



text \<open>What \<open>get\<close> hands to the continuation for a stored text, when nothing is raised.\<close>

definition deserialized :: "mediumtext \<Rightarrow> jsval option" where
  "deserialized d =
     (case JSON_parse (Some (CText d)) of
        Inl e \<Rightarrow> None
      | Inr parsed \<Rightarrow> (case restore_expires parsed of Inl e \<Rightarrow> None | Inr v \<Rightarrow> Some v))"

text \<open>The row of a session identifier whose expiry has not passed, if there is one.\<close>

definition live_row :: "row list \<Rightarrow> string \<Rightarrow> int \<Rightarrow> row option" where
  "live_row rows sid now = find (\<lambda>r. SESSION_ID r = sid \<and> EXPIRES r \<ge> now) rows"

text \<open>The default settings: what the constructor gives with no option and no variable set.\<close>

definition default_settings :: store_settings where
  "default_settings =
     \<lparr> databaseConfig =
         \<lparr> host = Chars ''localhost'', port = Some 3306,
           user = Chars ''auth_express_mysql_test_user'',
           password = Chars ''password123456'',
           database = Chars ''auth_express_mysql_testing'' \<rparr>,
       tableName = Chars ''SESSIONS'',
       columnNames =
         \<lparr> sessionID = Chars ''SESSION_ID'', expires = Chars ''EXPIRES'',
           data = Chars ''DATA'', user_column = Chars ''USER'' \<rparr> \<rparr>"

text \<open>
  The checks of the constructor as a list, in their order: the sentence that names the field,
  the resolved value, and the \<open>typeof\<close> it must have.
\<close>

definition field_checks :: "raw_settings \<Rightarrow> (string \<times> jsval \<times> string) list" where
  "field_checks r =
     [(''The database host must be a string.'', host (databaseConfig r), ''string''),
      (''The database port must be coercible to an integer.'', port (databaseConfig r), ''number''),
      (''The database user must be a string.'', user (databaseConfig r), ''string''),
      (''The database user password must be a string.'', password (databaseConfig r), ''string''),
      (''The database name must be a string.'', database (databaseConfig r), ''string''),
      (''The session table name must be a string.'', tableName r, ''string''),
      (''The table column name for sessionID must be a string.'', sessionID (columnNames r), ''string''),
      (''The table column name for expires must be a string.'', expires (columnNames r), ''string''),
      (''The table column name for data must be a string.'', data (columnNames r), ''string''),
      (''The table column name for user must be a string.'', user_column (columnNames r), ''string'')]"

definition offending :: "string \<times> jsval \<times> string \<Rightarrow> bool" where
  "offending c = (case c of (m, v, q) \<Rightarrow> typeof v \<noteq> q)"




text \<open>The call of the continuation, which happens only when it is a function.\<close>

definition invocation :: "jsval \<Rightarrow> dberror option \<Rightarrow> reply \<Rightarrow> event list" where
  "invocation callback error dat =
     (if typeof callback = ''function'' then [Callback error dat] else [])"

text \<open>The row \<open>set\<close> inserts for a session.\<close>

definition new_row :: "string \<Rightarrow> jsval \<Rightarrow> int \<Rightarrow> jstring \<Rightarrow> row" where
  "new_row sid session e u =
     \<lparr> SESSION_ID = sid, EXPIRES = e,
       DATA = (case stringify session of None \<Rightarrow> Raw [] | Some j \<Rightarrow> Doc j),
       USER = u \<rparr>"

text \<open>A row whose stored text \<open>get\<close> can hand back: it parses, and has a cookie to restore.\<close>

definition readable :: "row \<Rightarrow> bool" where
  "readable r = (case deserialized (DATA r) of None \<Rightarrow> False | Some v \<Rightarrow> True)"

text \<open>A state before any operation: nothing connected, nothing traced.\<close>

definition fresh_state :: "table \<Rightarrow> state" where
  "fresh_state t = \<lparr> reachable = True, sessions = t, connection = None, trace = [] \<rparr>"

text \<open>
  Concrete data for the examples: a session with a cookie that expires at time \<open>t\<close>, another
  one of a signed-in user, and settings whose data column is not called \<open>DATA\<close>.
\<close>

definition example_session :: "int \<Rightarrow> jsval" where
  "example_session t =
     Obj [(''cookie'', Obj [(''expires'', DateObj (Some t)), (''path'', Str (Chars ''/''))]),
          (''views'', Num 1)]"

definition example_login :: "int \<Rightarrow> jsval" where
  "example_login t =
     Obj [(''cookie'', Obj [(''expires'', DateObj (Some t))]),
          (''passport'', Obj [(''user'', Str (Chars ''ann''))])]"

definition renamed_settings :: store_settings where
  "renamed_settings =
     default_settings\<lparr> columnNames := (columnNames default_settings)\<lparr> data := Chars ''PAYLOAD'' \<rparr> \<rparr>"

text \<open>What \<open>touch\<close> does to a row: data and expiry of the row of that session are replaced.\<close>

definition touched :: "string \<Rightarrow> json \<Rightarrow> int \<Rightarrow> row \<Rightarrow> row" where
  "touched sid j e r = (if SESSION_ID r = sid then r\<lparr> DATA := Doc j, EXPIRES := e \<rparr> else r)"









section \<open>Basic facts about connections and the continuation\<close>

lemma connect_simps [simp]:
  "reachable (connectToDatabase s) = reachable s"
  "sessions (connectToDatabase s) = sessions s"
  "connection (connectToDatabase s) = Some (if reachable s then Authenticated else Disconnected)"
  "trace (connectToDatabase s) = trace s @ [Connect]"
  by (simp_all add: connectToDatabase_def)

lemma finalCallback_connected:
  "connection s = Some c \<Longrightarrow>
   finalCallback callback error dat s =
     (None, s\<lparr> connection := Some Disconnected,
               trace := trace s @ (if c = Authenticated then [DestroyConnection] else [])
                               @ (if typeof callback = ''function'' then [Callback error dat] else []) \<rparr>)"
  by (cases c) (auto simp: finalCallback_def closeDatabaseConnection_def)

lemma query_reachable:
  "reachable s \<Longrightarrow>
   query sql statement (connectToDatabase s) =
     (fst (statement (sessions s)),
      s\<lparr> sessions := snd (statement (sessions s)), connection := Some Authenticated,
         trace := trace s @ [Connect, Query sql] \<rparr>)"
  by (simp add: query_def connectToDatabase_def split: prod.splits)

lemma query_unreachable:
  "\<not> reachable s \<Longrightarrow>
   query sql statement (connectToDatabase s) =
     (Inl ConnectionError,
      s\<lparr> connection := Some Disconnected, trace := trace s @ [Connect, Query sql] \<rparr>)"
  by (simp add: query_def connectToDatabase_def split: prod.splits)

section \<open>Exceptions that leave an operation\<close>

text \<open>
  Claim C3 says that no operation ever throws to its caller, also for a session without a
  \<open>cookie\<close> field and for stored data that is not valid JSON. The class comment promises
  the same (``designed to silently handle errors''). But \<open>set\<close> and \<open>touch\<close> read
  \<open>session.cookie.expires\<close> before they send anything: for a session without \<open>cookie\<close> the
  read raises a \<open>TypeError\<close> that leaves the operation; no connection is made and the
  continuation is never called. And \<open>get\<close> parses the stored text inside the callback of the
  query, outside any handler: for a text that is not JSON a \<open>SyntaxError\<close> leaves it, the
  continuation is never called and the connection stays open.
\<close>

theorem operations_can_throw:
  "set_op cfg sid (Obj [(''views'', Num 1)]) callback s = (Some TypeError, s)
   \<and> touch cfg sid (Obj [(''views'', Num 1)]) callback s = (Some TypeError, s)
   \<and> get default_settings 100 ''abc'' Func
         (fresh_state (Some [\<lparr> SESSION_ID = ''abc'', EXPIRES = 5000, DATA = Raw ''{views:'',
                                 USER = Chars [] \<rparr>]))
       = (Some SyntaxError,
          \<lparr> reachable = True,
            sessions = Some [\<lparr> SESSION_ID = ''abc'', EXPIRES = 5000, DATA = Raw ''{views:'',
                                USER = Chars [] \<rparr>],
            connection = Some Authenticated,
            trace = [Connect, Query ''SELECT ?? FROM ?? WHERE ?? = ? AND ?? >= ?''] \<rparr>)"
  by (simp add: set_op_def touch_def get_def query_def connectToDatabase_def select_data_def
        on_table_def default_settings_def fresh_state_def)

section \<open>Construction\<close>


lemma port_truthy: "truthy (port (databaseConfig (resolve e opts)))"
  by (simp add: resolve_def js_or_def databaseDefaults_def)

lemma sanitize_cases:
  "sanitizeConfiguration r =
     (case find offending (field_checks r) of
        None \<Rightarrow> Inr \<lparr> databaseConfig =
                \<lparr> host = string_of (host (databaseConfig r)),
                  port = integer_of (parseInt (port (databaseConfig r))),
                  user = string_of (user (databaseConfig r)),
                  password = string_of (password (databaseConfig r)),
                  database = string_of (database (databaseConfig r)) \<rparr>,
              tableName = string_of (tableName r),
              columnNames =
                \<lparr> sessionID = string_of (sessionID (columnNames r)),
                  expires = string_of (expires (columnNames r)),
                  data = string_of (data (columnNames r)),
                  user_column = string_of (user_column (columnNames r)) \<rparr> \<rparr>
      | Some (m, v, q) \<Rightarrow>
          Inl (m @ '' Received: ''
                 @ (if m = ''The session table name must be a string.'' then ''undefined''
                    else typeof v)))"
  by (simp add: sanitizeConfiguration_def field_checks_def offending_def Let_def)













section \<open>Serialized sessions\<close>

lemma plain_roundtrip:
  "plain v \<Longrightarrow> \<exists>j. stringify v = Some j \<and> value_of j = v"
  "plain_elements xs \<Longrightarrow> values_of (stringify_elements xs) = xs"
  "plain_properties kvs \<Longrightarrow> properties_of (stringify_properties kvs) = kvs"
  by (induction v and xs and kvs rule: plain_plain_elements_plain_properties.induct) auto

lemma properties_roundtrip_except:
  "map_of kvs k = Some v \<Longrightarrow> stringify v = Some j \<Longrightarrow>
   plain_properties (AList.update k Null kvs) \<Longrightarrow>
   properties_of (stringify_properties kvs) = AList.update k (value_of j) kvs"
proof (induction kvs)
  case Nil
  then show ?case by simp
next
  case (Cons a kvs)
  obtain k' v' where a: "a = (k', v')" by (cases a)
  show ?case
  proof (cases "k' = k")
    case True
    with Cons.prems a show ?thesis by (simp add: plain_roundtrip(3))
  next
    case False
    with Cons.prems a have pv: "plain v'" and rest: "plain_properties (AList.update k Null kvs)"
      and m: "map_of kvs k = Some v"
      by auto
    from plain_roundtrip(1) [OF pv] obtain j' where "stringify v' = Some j'" "value_of j' = v'"
      by blast
    with Cons.IH [OF m Cons.prems(2) rest] a False show ?thesis by simp
  qed
qed

lemma session_payloadD:
  assumes "session_payload p t"
  shows "\<exists>kvs ckvs. p = Obj kvs \<and> map_of kvs ''cookie'' = Some (Obj ckvs)
           \<and> map_of ckvs ''expires'' = Some (DateObj (Some t))
           \<and> plain_properties (AList.update ''expires'' Null ckvs)
           \<and> plain_properties (AList.update ''cookie'' Null kvs)"
proof -
  from assms obtain kvs where p: "p = Obj kvs"
    by (cases p) (simp_all add: session_payload_def)
  with assms obtain c where c: "map_of kvs ''cookie'' = Some c"
    by (cases "map_of kvs ''cookie''") (simp_all add: session_payload_def)
  with assms p obtain ckvs where ck: "c = Obj ckvs"
    by (cases c) (simp_all add: session_payload_def)
  with assms p c show ?thesis
    by (simp add: session_payload_def)
qed

lemma session_roundtrip:
  assumes "session_payload p t"
  shows "\<exists>j. stringify p = Some j \<and> deserialized (Doc j) = Some p"
proof -
  from session_payloadD [OF assms] obtain kvs ckvs where p: "p = Obj kvs"
    and c: "map_of kvs ''cookie'' = Some (Obj ckvs)"
    and x: "map_of ckvs ''expires'' = Some (DateObj (Some t))"
    and pc: "plain_properties (AList.update ''expires'' Null ckvs)"
    and pp: "plain_properties (AList.update ''cookie'' Null kvs)"
    by blast
  have ck: "properties_of (stringify_properties ckvs)
              = AList.update ''expires'' (Str (IsoText t)) ckvs"
    using properties_roundtrip_except [OF x _ pc, of "JStr (IsoText t)"] by simp
  have kv: "properties_of (stringify_properties kvs)
              = AList.update ''cookie'' (Obj (AList.update ''expires'' (Str (IsoText t)) ckvs)) kvs"
    using properties_roundtrip_except [OF c _ pp, of "JObj (stringify_properties ckvs)"] ck by simp
  have inner: "AList.update ''expires'' (DateObj (Some t))
                 (AList.update ''expires'' (Str (IsoText t)) ckvs) = ckvs"
    using x by (simp add: update_triv)
  have outer: "AList.update ''cookie'' (Obj ckvs)
                 (AList.update ''cookie'' (Obj (AList.update ''expires'' (Str (IsoText t)) ckvs)) kvs) = kvs"
    using c by (simp add: update_triv)
  show ?thesis
    using p kv outer inner
    by (simp add: deserialized_def restore_expires_def update_conv' new_Date_def)
qed

lemma session_extracted:
  "session_payload p t \<Longrightarrow> extracted_expiry p = Date_parse (DateObj (Some t))"
  by (auto simp: extracted_expiry_def simp del: Date_parse.simps dest!: session_payloadD)

lemma session_extracted_cut:
  "session_payload p t \<Longrightarrow> - 59011459200000 \<le> t \<Longrightarrow>
   extracted_expiry p = Some ((t div 1000) * 1000)"
  by (simp add: session_extracted)

lemma find_absent:
  "sid \<notin> SESSION_ID ` set rows \<Longrightarrow> find (\<lambda>r. SESSION_ID r = sid \<and> P r) rows = None"
  by (induction rows) auto

lemma filter_absent:
  "sid \<notin> SESSION_ID ` set rows \<Longrightarrow> filter (\<lambda>r. SESSION_ID r = sid \<and> P r) rows = []"
  by (induction rows) auto

lemma filter_key:
  "distinct (map SESSION_ID rows) \<Longrightarrow>
   filter (\<lambda>r. SESSION_ID r = sid \<and> P r) rows =
     (case find (\<lambda>r. SESSION_ID r = sid \<and> P r) rows of None \<Rightarrow> [] | Some r \<Rightarrow> [r])"
proof (induction rows)
  case Nil
  then show ?case by simp
next
  case (Cons a rows)
  from Cons show ?case
    by (auto simp: find_absent filter_absent)
qed

section \<open>What the operations do on a reachable server\<close>

lemma finalCallback_authenticated:
  "connection s = Some Authenticated \<Longrightarrow>
   finalCallback callback error dat s =
     (None, s\<lparr> connection := Some Disconnected,
               trace := trace s @ [DestroyConnection] @ invocation callback error dat \<rparr>)"
  by (simp add: finalCallback_connected invocation_def)

lemma finalCallback_disconnected:
  "connection s = Some Disconnected \<Longrightarrow>
   finalCallback callback error dat s =
     (None, s\<lparr> trace := trace s @ invocation callback error dat \<rparr>)"
  by (simp add: finalCallback_connected invocation_def)

lemma on_table_Some [simp]:
  "on_table (Some rows) f = (fst (f rows), Some (snd (f rows)))"
  by (simp add: on_table_def split: prod.splits)

lemma on_table_None [simp]: "on_table None f = (Inl NoSuchTable, None)"
  by (simp add: on_table_def)

lemma set_op_result:
  assumes "reachable s" "sessions s = Some rows"
    and "extracted_expiry session = Some e" "stored_user (bound_user session) = Inr u"
  shows "set_op cfg sid session callback s =
     (None, s\<lparr> sessions := Some (if sid \<in> SESSION_ID ` set rows then rows
                                  else rows @ [new_row sid session e u]),
               connection := Some Disconnected,
               trace := trace s @ [Connect,
                   Query ''INSERT IGNORE INTO ?? (??, ??, ??, ??) VALUES (?, ?, ?, ?)'',
                   DestroyConnection] @ invocation callback None Omitted \<rparr>)"
  using assms
  by (auto simp: set_op_def extracted_expiry_def bound_user_def query_reachable
        finalCallback_authenticated insert_ignore_def error_of_def new_row_def
        split: sum.splits)

lemma touch_result:
  assumes "reachable s" "sessions s = Some rows"
    and "extracted_expiry session = Some e" "stringify session = Some j"
  shows "touch cfg sid session callback s =
     (None, s\<lparr> sessions := Some (map (\<lambda>r. if SESSION_ID r = sid
                                           then r\<lparr> DATA := Doc j, EXPIRES := e \<rparr> else r) rows),
               connection := Some Disconnected,
               trace := trace s @ [Connect, Query ''UPDATE ?? SET ?? = ?, ?? = ? WHERE ?? = ?'',
                   DestroyConnection] @ invocation callback None Omitted \<rparr>)"
  using assms
  by (auto simp: touch_def extracted_expiry_def query_reachable
        finalCallback_authenticated update_by_id_def error_of_def
        split: sum.splits)

lemma get_result:
  assumes "reachable s" "sessions s = Some rows" "distinct (map SESSION_ID rows)"
  shows "get cfg now sid callback s =
     (case live_row rows sid now of
        None \<Rightarrow>
          (None, s\<lparr> connection := Some Disconnected,
                    trace := trace s @ [Connect, Query ''SELECT ?? FROM ?? WHERE ?? = ? AND ?? >= ?'',
                       DestroyConnection] @ invocation callback None Omitted \<rparr>)
      | Some r \<Rightarrow>
          (if data (columnNames cfg) = Chars ''DATA'' then
             (case JSON_parse (Some (CText (DATA r))) of
                Inl e \<Rightarrow> (Some e, s\<lparr> connection := Some Authenticated,
                     trace := trace s @ [Connect, Query ''SELECT ?? FROM ?? WHERE ?? = ? AND ?? >= ?''] \<rparr>)
              | Inr parsed \<Rightarrow>
                 (case restore_expires parsed of
                    Inl e \<Rightarrow> (Some e, s\<lparr> connection := Some Authenticated,
                        trace := trace s @ [Connect, Query ''SELECT ?? FROM ?? WHERE ?? = ? AND ?? >= ?''] \<rparr>)
                  | Inr v \<Rightarrow> (None, s\<lparr> connection := Some Disconnected,
                        trace := trace s @ [Connect, Query ''SELECT ?? FROM ?? WHERE ?? = ? AND ?? >= ?'',
                           DestroyConnection] @ invocation callback None (Session v) \<rparr>)))
           else (Some SyntaxError, s\<lparr> connection := Some Authenticated,
                     trace := trace s @ [Connect, Query ''SELECT ?? FROM ?? WHERE ?? = ? AND ?? >= ?''] \<rparr>)))"
  using assms
  by (auto simp: get_def query_reachable finalCallback_authenticated select_data_def
        live_row_def filter_key split: option.splits sum.splits)

lemma lookup_stringified:
  "map_of kvs k = Some v \<Longrightarrow> stringify v = Some j \<Longrightarrow>
   map_of (properties_of (stringify_properties kvs)) k = Some (value_of j)"
proof (induction kvs)
  case Nil
  then show ?case by simp
next
  case (Cons a kvs)
  obtain k' v' where a: "a = (k', v')" by (cases a)
  with Cons show ?case
    by (cases "stringify v'") (auto split: if_splits)
qed

lemma member_property:
  "member c k = Inr x \<Longrightarrow> x \<noteq> Undefined \<Longrightarrow> \<exists>kvs. c = Obj kvs \<and> map_of kvs k = Some x"
  by (cases c) (auto split: option.splits)

lemma extracted_deserializes:
  assumes "extracted_expiry session = Some e"
  shows "\<exists>j v. stringify session = Some j \<and> deserialized (Doc j) = Some v"
proof -
  from assms obtain c x where c: "member session ''cookie'' = Inr c"
    and x: "member c ''expires'' = Inr x" and dx: "Date_parse x = Some e"
    by (auto simp: extracted_expiry_def split: sum.splits)
  from dx have xu: "x \<noteq> Undefined" by auto
  from member_property [OF x xu] obtain ckvs where ck: "c = Obj ckvs"
    and mx: "map_of ckvs ''expires'' = Some x" by blast
  from ck have cu: "c \<noteq> Undefined" by simp
  from member_property [OF c cu] obtain kvs where p: "session = Obj kvs"
    and mc: "map_of kvs ''cookie'' = Some c" by blast
  have lc: "map_of (properties_of (stringify_properties kvs)) ''cookie''
              = Some (Obj (properties_of (stringify_properties ckvs)))"
    using lookup_stringified [OF mc, of "JObj (stringify_properties ckvs)"] ck by simp
  show ?thesis
    using p lc by (simp add: deserialized_def restore_expires_def)
qed

section \<open>Reading a session\<close>

lemma events_append [simp]:
  "trace (snd out) = trace s @ evs \<Longrightarrow> events s out = evs"
  by (simp add: events_def)

lemma live_row_iff:
  "distinct (map SESSION_ID rows) \<Longrightarrow>
   live_row rows sid now = Some r \<longleftrightarrow> r \<in> set rows \<and> SESSION_ID r = sid \<and> now \<le> EXPIRES r"
proof (induction rows)
  case Nil
  then show ?case by (simp add: live_row_def)
next
  case (Cons a rows)
  then show ?case by (auto simp: live_row_def image_iff)
qed

lemma live_row_None_iff:
  "live_row rows sid now = None \<longleftrightarrow> \<not> (\<exists>r \<in> set rows. SESSION_ID r = sid \<and> now \<le> EXPIRES r)"
  by (auto simp: live_row_def find_None_iff)

text \<open>
  Claim C10: \<open>get\<close> reads the field \<open>DATA\<close> of the row it fetched, whatever the data column
  is called. In a store whose data column is not called \<open>DATA\<close> the row has no such field:
  for a session that exists and has not expired, \<open>JSON.parse(undefined)\<close> raises a
  \<open>SyntaxError\<close> in the success branch, so \<open>get\<close> never hands out the stored payload. The
  continuation is not called and the connection stays open.
\<close>

theorem get_reads_literal_DATA:
  assumes "data (columnNames cfg) \<noteq> Chars ''DATA''"
    and "reachable s" and "sessions s = Some rows" and "distinct (map SESSION_ID rows)"
    and "r \<in> set rows" and "SESSION_ID r = sid" and "now \<le> EXPIRES r"
  shows "get cfg now sid callback s =
           (Some SyntaxError,
            s\<lparr> connection := Some Authenticated,
               trace := trace s @ [Connect, Query ''SELECT ?? FROM ?? WHERE ?? = ? AND ?? >= ?''] \<rparr>)"
proof -
  from assms have "live_row rows sid now = Some r"
    by (simp add: live_row_iff)
  with assms show ?thesis
    by (simp add: get_result)
qed

theorem get_reads_literal_DATA_witness:
  "get renamed_settings 100 ''abc'' Func
       (fresh_state (Some [new_row ''abc'' (example_session 5000) 5000 (Chars [])]))
     = (Some SyntaxError,
        \<lparr> reachable = True,
          sessions = Some [new_row ''abc'' (example_session 5000) 5000 (Chars [])],
          connection = Some Authenticated,
          trace = [Connect, Query ''SELECT ?? FROM ?? WHERE ?? = ? AND ?? >= ?''] \<rparr>)"
  using get_reads_literal_DATA [where cfg = renamed_settings and now = 100 and sid = "''abc''"
          and s = "fresh_state (Some [new_row ''abc'' (example_session 5000) 5000 (Chars [])])"
          and rows = "[new_row ''abc'' (example_session 5000) 5000 (Chars [])]"
          and r = "new_row ''abc'' (example_session 5000) 5000 (Chars [])" and callback = Func]
  by (simp add: renamed_settings_def default_settings_def fresh_state_def new_row_def)

text \<open>
  What \<open>get\<close> does in a store whose data column has its default name \<open>DATA\<close> and whose
  rows hold texts that \<open>get\<close> can hand back (as \<open>set\<close> and \<open>touch\<close> write them, see
  \<open>extracted_deserializes\<close>), on a reachable server whose table exists: it raises nothing
  and leaves the table as it is; it calls the continuation with no error and the
  deserialized payload of the row if a row with that session identifier exists whose
  \<open>expires\<close> is at least the current time, and with no error and no data in every other
  case.
\<close>

lemma get_live_session:
  assumes "reachable s" and "sessions s = Some rows" and "distinct (map SESSION_ID rows)"
    and "\<forall>r \<in> set rows. readable r"
    and "data (columnNames cfg) = Chars ''DATA''"
  shows "fst (get cfg now sid callback s) = None
       \<and> sessions (snd (get cfg now sid callback s)) = sessions s
       \<and> (if \<exists>r \<in> set rows. SESSION_ID r = sid \<and> now \<le> EXPIRES r
          then \<exists>r v. r \<in> set rows \<and> SESSION_ID r = sid \<and> now \<le> EXPIRES r
                  \<and> deserialized (DATA r) = Some v
                  \<and> events s (get cfg now sid callback s) =
                      [Connect, Query ''SELECT ?? FROM ?? WHERE ?? = ? AND ?? >= ?'', DestroyConnection]
                      @ invocation callback None (Session v)
          else events s (get cfg now sid callback s) =
                 [Connect, Query ''SELECT ?? FROM ?? WHERE ?? = ? AND ?? >= ?'', DestroyConnection]
                 @ invocation callback None Omitted)"
proof (cases "live_row rows sid now")
  case None
  then have "\<not> (\<exists>r \<in> set rows. SESSION_ID r = sid \<and> now \<le> EXPIRES r)"
    by (simp add: live_row_None_iff)
  with None assms show ?thesis
    by (auto simp add: get_result)
next
  case (Some r)
  with assms have r: "r \<in> set rows" "SESSION_ID r = sid" "now \<le> EXPIRES r"
    by (simp_all add: live_row_iff)
  with assms obtain v where v: "deserialized (DATA r) = Some v"
    by (auto simp: readable_def split: option.splits)
  then obtain parsed where "JSON_parse (Some (CText (DATA r))) = Inr parsed"
      "restore_expires parsed = Inr v"
    by (auto simp: deserialized_def split: sum.splits)
  with Some assms r v show ?thesis
    by (auto simp: get_result)
qed

lemma get_live_session_example:
  "events (fresh_state (Some [new_row ''abc'' (example_session 5000) 5000 (Chars []),
                              new_row ''old'' (example_session 50) 0 (Chars [])]))
      (get default_settings 100 ''abc'' Func
        (fresh_state (Some [new_row ''abc'' (example_session 5000) 5000 (Chars []),
                            new_row ''old'' (example_session 50) 0 (Chars [])])))
     = [Connect, Query ''SELECT ?? FROM ?? WHERE ?? = ? AND ?? >= ?'', DestroyConnection,
        Callback None (Session (example_session 5000))]
   \<and> events (fresh_state (Some [new_row ''abc'' (example_session 5000) 5000 (Chars []),
                              new_row ''old'' (example_session 50) 0 (Chars [])]))
      (get default_settings 100 ''old'' Func
        (fresh_state (Some [new_row ''abc'' (example_session 5000) 5000 (Chars []),
                            new_row ''old'' (example_session 50) 0 (Chars [])])))
     = [Connect, Query ''SELECT ?? FROM ?? WHERE ?? = ? AND ?? >= ?'', DestroyConnection,
        Callback None Omitted]"
  using get_live_session [where cfg = default_settings and now = 100 and sid = "''abc''"
          and callback = Func
          and s = "fresh_state (Some [new_row ''abc'' (example_session 5000) 5000 (Chars []),
                                      new_row ''old'' (example_session 50) 0 (Chars [])])"
          and rows = "[new_row ''abc'' (example_session 5000) 5000 (Chars []),
                       new_row ''old'' (example_session 50) 0 (Chars [])]"]
        get_live_session [where cfg = default_settings and now = 100 and sid = "''old''"
          and callback = Func
          and s = "fresh_state (Some [new_row ''abc'' (example_session 5000) 5000 (Chars []),
                                      new_row ''old'' (example_session 50) 0 (Chars [])])"
          and rows = "[new_row ''abc'' (example_session 5000) 5000 (Chars []),
                       new_row ''old'' (example_session 50) 0 (Chars [])]"]
  by (auto simp add: default_settings_def fresh_state_def new_row_def example_session_def
        readable_def deserialized_def restore_expires_def new_Date_def invocation_def)

text \<open>
  Claim C2 says that \<open>get\<close> calls the continuation with the deserialized payload if and
  only if a record with that session identifier exists whose \<open>expires\<close> is at least the
  current time. In a store whose data column was given another name than \<open>DATA\<close> (here
  \<open>PAYLOAD\<close>) this fails for a record that exists and has not expired: \<open>get\<close> selects the
  column \<open>PAYLOAD\<close> and reads the field \<open>DATA\<close> of the row, \<open>JSON.parse(undefined)\<close> raises
  a \<open>SyntaxError\<close>, the continuation is never called and the connection stays open. The
  same happens in any store for a live record whose text is not JSON. The documentation of
  \<open>get\<close> (``Gets the session (if not expired) from the store given a session ID and passes
  it to callback'') and of the constructor, which offers \<open>columnNames.data\<close> as an option,
  promise otherwise.
\<close>

theorem get_misses_live_session:
  "live_row [new_row ''abc'' (example_session 5000) 5000 (Chars [])] ''abc'' 100
     = Some (new_row ''abc'' (example_session 5000) 5000 (Chars []))
   \<and> get renamed_settings 100 ''abc'' Func
         (fresh_state (Some [new_row ''abc'' (example_session 5000) 5000 (Chars [])]))
     = (Some SyntaxError,
        \<lparr> reachable = True,
          sessions = Some [new_row ''abc'' (example_session 5000) 5000 (Chars [])],
          connection = Some Authenticated,
          trace = [Connect, Query ''SELECT ?? FROM ?? WHERE ?? = ? AND ?? >= ?''] \<rparr>)
   \<and> get default_settings 100 ''abc'' Func
         (fresh_state (Some [new_row ''abc'' (example_session 5000) 5000 (Chars [])]))
     = (None,
        \<lparr> reachable = True,
          sessions = Some [new_row ''abc'' (example_session 5000) 5000 (Chars [])],
          connection = Some Disconnected,
          trace = [Connect, Query ''SELECT ?? FROM ?? WHERE ?? = ? AND ?? >= ?'',
                   DestroyConnection, Callback None (Session (example_session 5000))] \<rparr>)
   \<and> get default_settings 100 ''abc'' Func
         (fresh_state (Some [\<lparr> SESSION_ID = ''abc'', EXPIRES = 5000, DATA = Raw ''{views:'',
                                 USER = Chars [] \<rparr>]))
     = (Some SyntaxError,
        \<lparr> reachable = True,
          sessions = Some [\<lparr> SESSION_ID = ''abc'', EXPIRES = 5000, DATA = Raw ''{views:'',
                              USER = Chars [] \<rparr>],
          connection = Some Authenticated,
          trace = [Connect, Query ''SELECT ?? FROM ?? WHERE ?? = ? AND ?? >= ?''] \<rparr>)"
  by (simp add: live_row_def get_def query_def connectToDatabase_def finalCallback_def
        closeDatabaseConnection_def select_data_def on_table_def restore_expires_def new_Date_def
        renamed_settings_def default_settings_def fresh_state_def new_row_def
        example_session_def)

section \<open>Writing a session\<close>

lemma user_coveredD: "user_covered session \<Longrightarrow> \<exists>u. stored_user (bound_user session) = Inr u"
  by (auto simp: user_covered_def split: sum.splits)

lemma set_op_table:
  assumes "reachable s" "sessions s = Some rows"
    and "extracted_expiry session = Some e" "user_covered session"
  shows "\<exists>u. set_op cfg sid session callback s =
     (None, s\<lparr> sessions := Some (if sid \<in> SESSION_ID ` set rows then rows
                                  else rows @ [new_row sid session e u]),
               connection := Some Disconnected,
               trace := trace s @ [Connect,
                   Query ''INSERT IGNORE INTO ?? (??, ??, ??, ??) VALUES (?, ?, ?, ?)'',
                   DestroyConnection] @ invocation callback None Omitted \<rparr>)"
  using user_coveredD [OF assms(4)] set_op_result [OF assms(1-3)] by blast

lemma get_of_row:
  assumes "reachable s" "sessions s = Some rows" "distinct (map SESSION_ID rows)"
    and "r \<in> set rows" "SESSION_ID r = sid" "now \<le> EXPIRES r"
    and "data (columnNames cfg) = Chars ''DATA''" "deserialized (DATA r) = Some v"
  shows "get cfg now sid callback s =
     (None, s\<lparr> connection := Some Disconnected,
               trace := trace s @ [Connect, Query ''SELECT ?? FROM ?? WHERE ?? = ? AND ?? >= ?'',
                  DestroyConnection] @ invocation callback None (Session v) \<rparr>)"
proof -
  from assms have l: "live_row rows sid now = Some r"
    by (simp add: live_row_iff)
  from assms(8) obtain parsed where "JSON_parse (Some (CText (DATA r))) = Inr parsed"
      "restore_expires parsed = Inr v"
    by (auto simp: deserialized_def split: sum.splits)
  with l assms show ?thesis
    by (simp add: get_result)
qed

text \<open>
  Claim C1 says, for every session identifier and all payloads \<open>A\<close> and \<open>B\<close>, that
  \<open>set(id, A)\<close> followed by \<open>set(id, B)\<close> raises no error and that a \<open>get(id)\<close> before the
  expiry then returns \<open>A\<close>. When the cookie of \<open>B\<close> has no expiry (\<open>expires\<close> is \<open>null\<close>,
  as for a cookie that lasts for the browser session), \<open>Date.parse\<close> gives \<open>NaN\<close>, which is
  bound as the bare word \<^verbatim>\<open>NaN\<close>: the server rejects the statement and the second \<open>set\<close>
  reports an error. And when the identifier already had a row, the first \<open>set\<close> is ignored
  as well, and \<open>get\<close> returns the payload stored before, not \<open>A\<close>.
\<close>

theorem insert_ignore_law_fails:
  "events (snd (set_op default_settings ''abc'' (example_session 5000) Func (fresh_state (Some []))))
      (set_op default_settings ''abc'' (Obj [(''cookie'', Obj [(''expires'', Null)])]) Func
         (snd (set_op default_settings ''abc'' (example_session 5000) Func (fresh_state (Some [])))))
     = [Connect, Query ''INSERT IGNORE INTO ?? (??, ??, ??, ??) VALUES (?, ?, ?, ?)'',
        DestroyConnection, Callback (Some BadField) Omitted]
   \<and> events
       (snd (set_op default_settings ''abc'' (example_login 9000) Func
         (snd (set_op default_settings ''abc'' (example_session 5000) Func
                (fresh_state (Some [new_row ''abc'' (example_session 7000) 7000 (Chars [])]))))))
       (get default_settings 100 ''abc'' Func
         (snd (set_op default_settings ''abc'' (example_login 9000) Func
           (snd (set_op default_settings ''abc'' (example_session 5000) Func
                  (fresh_state (Some [new_row ''abc'' (example_session 7000) 7000 (Chars [])])))))))
     = [Connect, Query ''SELECT ?? FROM ?? WHERE ?? = ? AND ?? >= ?'', DestroyConnection,
        Callback None (Session (example_session 7000))]
   \<and> example_session 7000 \<noteq> example_session 5000"
  by (simp add: events_def set_op_def get_def query_def connectToDatabase_def finalCallback_def
        closeDatabaseConnection_def insert_ignore_def select_data_def on_table_def error_of_def
        restore_expires_def new_Date_def bound_user_def
        default_settings_def fresh_state_def new_row_def example_session_def example_login_def)

text \<open>
  Claim C1 as amended, the insert-ignore law: on a reachable server whose table exists (with
  unique session identifiers) and has no row for the session identifier yet, in a store whose
  data column has its default name \<open>DATA\<close>; for a session \<open>A\<close> with a dated cookie
  (\<open>session_payload\<close>) whose date \<open>Date.parse\<close> reads, and a second session \<open>B\<close> whose
  \<open>cookie.expires\<close> \<open>Date.parse\<close> reads, the user reference of both being one the server
  stores (\<open>user_covered\<close>): after \<open>set(id, A)\<close>, the call \<open>set(id, B)\<close> raises nothing,
  reports no error to the continuation and leaves the table as it was, and a \<open>get(id)\<close> not
  later than the expiry \<open>set\<close> stored for \<open>A\<close> hands out \<open>A\<close>. (That expiry is \<open>Date.parse\<close>
  of the cookie's \<open>Date\<close>: its time cut to whole seconds.)
\<close>

theorem insert_ignore_law:
  fixes cfg :: store_settings and callback A B :: jsval and s :: state and sid :: string
    and now :: int
  assumes "reachable s" and "sessions s = Some rows" and "distinct (map SESSION_ID rows)"
    and "sid \<notin> SESSION_ID ` set rows"
    and "session_payload A t" and "user_covered A"
    and "extracted_expiry B = Some e" and "user_covered B"
    and "data (columnNames cfg) = Chars ''DATA''"
    and "extracted_expiry A = Some a" and "now \<le> a"
  defines "first \<equiv> set_op cfg sid A callback s"
  defines "second \<equiv> set_op cfg sid B callback (snd first)"
  defines "third \<equiv> get cfg now sid callback (snd second)"
  shows "fst second = None
       \<and> events (snd first) second =
           [Connect, Query ''INSERT IGNORE INTO ?? (??, ??, ??, ??) VALUES (?, ?, ?, ?)'',
            DestroyConnection] @ invocation callback None Omitted
       \<and> sessions (snd second) = sessions (snd first)
       \<and> fst third = None
       \<and> events (snd second) third =
           [Connect, Query ''SELECT ?? FROM ?? WHERE ?? = ? AND ?? >= ?'', DestroyConnection]
           @ invocation callback None (Session A)"
proof -
  from set_op_table [OF assms(1,2,10,6), where cfg = cfg and sid = sid and callback = callback]
    assms(4) obtain u where
    f: "first = (None, s\<lparr> sessions := Some (rows @ [new_row sid A a u]),
               connection := Some Disconnected,
               trace := trace s @ [Connect,
                   Query ''INSERT IGNORE INTO ?? (??, ??, ??, ??) VALUES (?, ?, ?, ?)'',
                   DestroyConnection] @ invocation callback None Omitted \<rparr>)"
    unfolding first_def by auto
  let ?rows1 = "rows @ [new_row sid A a u]"
  have r1: "reachable (snd first)" and t1: "sessions (snd first) = Some ?rows1"
    using f assms(1) by simp_all
  have inside: "sid \<in> SESSION_ID ` set ?rows1"
    by (simp add: new_row_def)
  from set_op_table [OF r1 t1 assms(7,8), where cfg = cfg and sid = sid and callback = callback]
    inside obtain u' where
    g: "second = (None, (snd first)\<lparr> sessions := Some ?rows1,
               connection := Some Disconnected,
               trace := trace (snd first) @ [Connect,
                   Query ''INSERT IGNORE INTO ?? (??, ??, ??, ??) VALUES (?, ?, ?, ?)'',
                   DestroyConnection] @ invocation callback None Omitted \<rparr>)"
    unfolding second_def by auto
  have r2: "reachable (snd second)" and t2: "sessions (snd second) = Some ?rows1"
    using g r1 by simp_all
  have d: "distinct (map SESSION_ID ?rows1)"
    using assms(3,4) by (simp add: new_row_def)
  from session_roundtrip [OF assms(5)] obtain j where
    j: "stringify A = Some j" "deserialized (Doc j) = Some A" by blast
  have h: "get cfg now sid callback (snd second) =
     (None, (snd second)\<lparr> connection := Some Disconnected,
               trace := trace (snd second) @ [Connect, Query ''SELECT ?? FROM ?? WHERE ?? = ? AND ?? >= ?'',
                  DestroyConnection] @ invocation callback None (Session A) \<rparr>)"
    using j assms(11)
    by (intro get_of_row [OF r2 t2 d, where r = "new_row sid A a u"] assms(9))
       (simp_all add: new_row_def)
  show ?thesis
    using g t1 h by (simp add: third_def)
qed


theorem insert_ignore_law_witness:
  "events (snd (set_op default_settings ''abc'' (example_session 5000) Func (fresh_state (Some []))))
      (set_op default_settings ''abc'' (example_login 9000) Func
         (snd (set_op default_settings ''abc'' (example_session 5000) Func (fresh_state (Some [])))))
     = [Connect, Query ''INSERT IGNORE INTO ?? (??, ??, ??, ??) VALUES (?, ?, ?, ?)'',
        DestroyConnection, Callback None Omitted]
   \<and> events
       (snd (set_op default_settings ''abc'' (example_login 9000) Func
         (snd (set_op default_settings ''abc'' (example_session 5000) Func (fresh_state (Some []))))))
       (get default_settings 100 ''abc'' Func
         (snd (set_op default_settings ''abc'' (example_login 9000) Func
           (snd (set_op default_settings ''abc'' (example_session 5000) Func
                  (fresh_state (Some [])))))))
     = [Connect, Query ''SELECT ?? FROM ?? WHERE ?? = ? AND ?? >= ?'', DestroyConnection,
        Callback None (Session (example_session 5000))]"
  using insert_ignore_law [where cfg = default_settings and sid = "''abc''" and callback = Func
          and s = "fresh_state (Some [])" and rows = "[]" and now = 100
          and A = "example_session 5000" and t = 5000 and a = 5000
          and B = "example_login 9000" and e = 9000]
  by (simp add: default_settings_def fresh_state_def example_session_def example_login_def
        session_payload_def user_covered_def bound_user_def extracted_expiry_def invocation_def)

text \<open>
  Claim C4 as amended, the round trip: on a reachable server whose table exists (with unique
  session identifiers) and has no row for the session identifier yet, in a store whose data
  column has its default name \<open>DATA\<close>, for a session \<open>p\<close> with a dated cookie
  (\<open>session_payload\<close>) whose date \<open>Date.parse\<close> reads and whose user reference is one the
  server stores (\<open>user_covered\<close>): \<open>set(id, p)\<close> raises nothing and reports no error, and a
  \<open>get(id)\<close> not later than the expiry \<open>set\<close> stored hands out \<open>p\<close>.
\<close>

theorem round_trip_fresh:
  fixes cfg :: store_settings and callback p :: jsval and s :: state and sid :: string
    and now :: int
  assumes "reachable s" and "sessions s = Some rows" and "distinct (map SESSION_ID rows)"
    and "sid \<notin> SESSION_ID ` set rows"
    and "session_payload p t" and "user_covered p"
    and "data (columnNames cfg) = Chars ''DATA''"
    and "extracted_expiry p = Some e" and "now \<le> e"
  defines "first \<equiv> set_op cfg sid p callback s"
  defines "second \<equiv> get cfg now sid callback (snd first)"
  shows "fst first = None
       \<and> events s first =
           [Connect, Query ''INSERT IGNORE INTO ?? (??, ??, ??, ??) VALUES (?, ?, ?, ?)'',
            DestroyConnection] @ invocation callback None Omitted
       \<and> fst second = None
       \<and> events (snd first) second =
           [Connect, Query ''SELECT ?? FROM ?? WHERE ?? = ? AND ?? >= ?'', DestroyConnection]
           @ invocation callback None (Session p)"
proof -
  from set_op_table [OF assms(1,2,8,6), where cfg = cfg and sid = sid and callback = callback]
    assms(4) obtain u where
    f: "first = (None, s\<lparr> sessions := Some (rows @ [new_row sid p e u]),
               connection := Some Disconnected,
               trace := trace s @ [Connect,
                   Query ''INSERT IGNORE INTO ?? (??, ??, ??, ??) VALUES (?, ?, ?, ?)'',
                   DestroyConnection] @ invocation callback None Omitted \<rparr>)"
    unfolding first_def by auto
  let ?rows1 = "rows @ [new_row sid p e u]"
  have r1: "reachable (snd first)" and t1: "sessions (snd first) = Some ?rows1"
    using f assms(1) by simp_all
  have d: "distinct (map SESSION_ID ?rows1)"
    using assms(3,4) by (simp add: new_row_def)
  from session_roundtrip [OF assms(5)] obtain j where
    j: "stringify p = Some j" "deserialized (Doc j) = Some p" by blast
  have h: "get cfg now sid callback (snd first) =
     (None, (snd first)\<lparr> connection := Some Disconnected,
               trace := trace (snd first) @ [Connect, Query ''SELECT ?? FROM ?? WHERE ?? = ? AND ?? >= ?'',
                  DestroyConnection] @ invocation callback None (Session p) \<rparr>)"
    using j assms(9)
    by (intro get_of_row [OF r1 t1 d, where r = "new_row sid p e u"] assms(7))
       (simp_all add: new_row_def)
  show ?thesis
    using f h by (simp add: second_def)
qed

theorem round_trip_fresh_witness:
  "events (snd (set_op default_settings ''abc'' (example_login 9000) Func (fresh_state (Some []))))
      (get default_settings 9000 ''abc'' Func
         (snd (set_op default_settings ''abc'' (example_login 9000) Func (fresh_state (Some [])))))
     = [Connect, Query ''SELECT ?? FROM ?? WHERE ?? = ? AND ?? >= ?'', DestroyConnection,
        Callback None (Session (example_login 9000))]"
  using round_trip_fresh [where cfg = default_settings and sid = "''abc''" and callback = Func
          and s = "fresh_state (Some [])" and rows = "[]" and now = 9000
          and p = "example_login 9000" and t = 9000 and e = 9000]
  by (simp add: default_settings_def fresh_state_def example_login_def
        session_payload_def user_covered_def bound_user_def extracted_expiry_def invocation_def)

text \<open>
  Claim C4 says that \<open>set(id, p)\<close> followed by \<open>get(id)\<close> before the expiry of \<open>p\<close> yields
  \<open>p\<close> for every session identifier. \<open>set\<close> inserts with \<^verbatim>\<open>INSERT IGNORE\<close>: when the
  identifier already has a row, \<open>set\<close> reports no error and changes nothing, and \<open>get\<close>
  hands out the session that was stored before.
\<close>

theorem round_trip_existing_row:
  "events (fresh_state (Some [new_row ''abc'' (example_session 5000) 5000 (Chars [])]))
      (set_op default_settings ''abc'' (example_login 9000) Func
         (fresh_state (Some [new_row ''abc'' (example_session 5000) 5000 (Chars [])])))
     = [Connect, Query ''INSERT IGNORE INTO ?? (??, ??, ??, ??) VALUES (?, ?, ?, ?)'',
        DestroyConnection, Callback None Omitted]
   \<and> events
       (snd (set_op default_settings ''abc'' (example_login 9000) Func
               (fresh_state (Some [new_row ''abc'' (example_session 5000) 5000 (Chars [])]))))
       (get default_settings 100 ''abc'' Func
         (snd (set_op default_settings ''abc'' (example_login 9000) Func
                 (fresh_state (Some [new_row ''abc'' (example_session 5000) 5000 (Chars [])])))))
     = [Connect, Query ''SELECT ?? FROM ?? WHERE ?? = ? AND ?? >= ?'', DestroyConnection,
        Callback None (Session (example_session 5000))]
   \<and> example_session 5000 \<noteq> example_login 9000"
  by (simp add: events_def set_op_def get_def query_def connectToDatabase_def finalCallback_def
        closeDatabaseConnection_def insert_ignore_def select_data_def on_table_def error_of_def
        restore_expires_def new_Date_def bound_user_def
        default_settings_def fresh_state_def new_row_def example_session_def example_login_def)

lemma touched_id [simp]: "SESSION_ID (touched sid j e r) = SESSION_ID r"
  by (simp add: touched_def)

lemma touched_ids [simp]: "map SESSION_ID (map (touched sid j e) rows) = map SESSION_ID rows"
  by (induction rows) simp_all

lemma touched_absent:
  "sid \<notin> SESSION_ID ` set rows \<Longrightarrow> map (touched sid j e) rows = rows"
  by (induction rows) (auto simp: touched_def)

lemma touch_table:
  assumes "reachable s" "sessions s = Some rows"
    and "extracted_expiry session = Some e" "stringify session = Some j"
  shows "touch cfg sid session callback s =
     (None, s\<lparr> sessions := Some (map (touched sid j e) rows),
               connection := Some Disconnected,
               trace := trace s @ [Connect, Query ''UPDATE ?? SET ?? = ?, ?? = ? WHERE ?? = ?'',
                   DestroyConnection] @ invocation callback None Omitted \<rparr>)"
  using touch_result [OF assms] by (simp add: touched_def [abs_def])

text \<open>
  Claim C5 says, for every payload, that \<open>touch\<close> reports no error when no row matches, and
  that \<open>get\<close> returns the payload of \<open>touch\<close> afterwards. When the cookie of the payload has
  no expiry (\<open>expires\<close> is \<open>null\<close>), \<open>Date.parse\<close> gives \<open>NaN\<close>, which is bound as the
  bare word \<^verbatim>\<open>NaN\<close>: the server rejects the statement and \<open>touch\<close> reports an error, also
  when no row matches. And in a store whose data column is not called \<open>DATA\<close>, the \<open>get\<close>
  after \<open>set\<close> and \<open>touch\<close> throws.
\<close>

theorem touch_law_fails:
  "touch default_settings ''abc'' (Obj [(''cookie'', Obj [(''expires'', Null)])]) Func
       (fresh_state (Some []))
     = (None,
        \<lparr> reachable = True, sessions = Some [], connection = Some Disconnected,
          trace = [Connect, Query ''UPDATE ?? SET ?? = ?, ?? = ? WHERE ?? = ?'',
                   DestroyConnection, Callback (Some BadField) Omitted] \<rparr>)
   \<and> fst (get renamed_settings 100 ''abc'' Func
         (snd (touch renamed_settings ''abc'' (example_login 9000) Func
           (snd (set_op renamed_settings ''abc'' (example_session 5000) Func
                  (fresh_state (Some [])))))))
     = Some SyntaxError"
  by (simp add: touch_def set_op_def get_def query_def connectToDatabase_def finalCallback_def
        closeDatabaseConnection_def update_by_id_def insert_ignore_def select_data_def
        on_table_def error_of_def bound_user_def
        renamed_settings_def default_settings_def fresh_state_def
        example_session_def example_login_def)

text \<open>
  Claim C5 as amended, the touch law: on a reachable server whose table exists (with unique
  session identifiers), in a store whose data column has its default name \<open>DATA\<close>, for a
  session \<open>B\<close> with a dated cookie (\<open>session_payload\<close>) whose date \<open>Date.parse\<close> reads:
  \<open>touch(id, B)\<close> raises nothing, reports no error and replaces data and expiry in the row
  of \<open>id\<close>, leaving every other row as it is; when no row has that identifier the table
  stays as it is. After a \<open>set(id, A)\<close> of a session \<open>A\<close> whose \<open>cookie.expires\<close>
  \<open>Date.parse\<close> reads and whose user reference is one the server stores, \<open>touch(id, B)\<close> and
  then a \<open>get(id)\<close> not later than the expiry \<open>touch\<close> stored for \<open>B\<close> hands out \<open>B\<close>.
\<close>

theorem touch_law:
  fixes cfg :: store_settings and callback A B :: jsval and s :: state and sid :: string
    and now :: int
  assumes "reachable s" and "sessions s = Some rows" and "distinct (map SESSION_ID rows)"
    and "session_payload B t" and "stringify B = Some j" and "extracted_expiry B = Some e"
    and "extracted_expiry A = Some a" and "user_covered A"
    and "data (columnNames cfg) = Chars ''DATA''"
    and "now \<le> e"
  defines "first \<equiv> set_op cfg sid A callback s"
  defines "second \<equiv> touch cfg sid B callback (snd first)"
  defines "third \<equiv> get cfg now sid callback (snd second)"
  shows "fst (touch cfg sid B callback s) = None
       \<and> events s (touch cfg sid B callback s) =
           [Connect, Query ''UPDATE ?? SET ?? = ?, ?? = ? WHERE ?? = ?'', DestroyConnection]
           @ invocation callback None Omitted
       \<and> sessions (snd (touch cfg sid B callback s)) = Some (map (touched sid j e) rows)
       \<and> (sid \<notin> SESSION_ID ` set rows \<longrightarrow> sessions (snd (touch cfg sid B callback s)) = sessions s)
       \<and> fst second = None \<and> fst third = None
       \<and> events (snd second) third =
           [Connect, Query ''SELECT ?? FROM ?? WHERE ?? = ? AND ?? >= ?'', DestroyConnection]
           @ invocation callback None (Session B)"
proof -
  have direct: "touch cfg sid B callback s =
     (None, s\<lparr> sessions := Some (map (touched sid j e) rows),
               connection := Some Disconnected,
               trace := trace s @ [Connect, Query ''UPDATE ?? SET ?? = ?, ?? = ? WHERE ?? = ?'',
                   DestroyConnection] @ invocation callback None Omitted \<rparr>)"
    by (rule touch_table [OF assms(1,2,6,5)])
  from set_op_table [OF assms(1,2,7,8), where cfg = cfg and sid = sid and callback = callback]
  obtain u where
    f: "first = (None, s\<lparr> sessions := Some (if sid \<in> SESSION_ID ` set rows then rows
                                  else rows @ [new_row sid A a u]),
               connection := Some Disconnected,
               trace := trace s @ [Connect,
                   Query ''INSERT IGNORE INTO ?? (??, ??, ??, ??) VALUES (?, ?, ?, ?)'',
                   DestroyConnection] @ invocation callback None Omitted \<rparr>)"
    unfolding first_def by auto
  define rows1 where "rows1 = (if sid \<in> SESSION_ID ` set rows then rows
                                  else rows @ [new_row sid A a u])"
  have r1: "reachable (snd first)" and t1: "sessions (snd first) = Some rows1"
    using f assms(1) by (simp_all add: rows1_def)
  have d1: "distinct (map SESSION_ID rows1)" and in1: "sid \<in> SESSION_ID ` set rows1"
    using assms(3) by (auto simp: rows1_def new_row_def)
  have g: "second = (None, (snd first)\<lparr> sessions := Some (map (touched sid j e) rows1),
               connection := Some Disconnected,
               trace := trace (snd first) @ [Connect, Query ''UPDATE ?? SET ?? = ?, ?? = ? WHERE ?? = ?'',
                   DestroyConnection] @ invocation callback None Omitted \<rparr>)"
    unfolding second_def by (rule touch_table [OF r1 t1 assms(6,5)])
  let ?rows2 = "map (touched sid j e) rows1"
  have r2: "reachable (snd second)" and t2: "sessions (snd second) = Some ?rows2"
    using g r1 by simp_all
  have d2: "distinct (map SESSION_ID ?rows2)"
    using d1 by (simp only: touched_ids)
  from in1 obtain r0 where r0: "r0 \<in> set rows1" "SESSION_ID r0 = sid" by auto
  from session_roundtrip [OF assms(4)] assms(5) have restored: "deserialized (Doc j) = Some B"
    by auto
  have h: "get cfg now sid callback (snd second) =
     (None, (snd second)\<lparr> connection := Some Disconnected,
               trace := trace (snd second) @ [Connect, Query ''SELECT ?? FROM ?? WHERE ?? = ? AND ?? >= ?'',
                  DestroyConnection] @ invocation callback None (Session B) \<rparr>)"
    using r0 restored assms(10)
    by (intro get_of_row [OF r2 t2 d2, where r = "touched sid j e r0"] assms(9))
       (simp_all add: touched_def)
  show ?thesis
    using direct g h assms(2) by (simp add: third_def touched_absent)
qed

theorem touch_law_witness:
  "events
       (snd (touch default_settings ''abc'' (example_login 9000) Func
         (snd (set_op default_settings ''abc'' (example_session 5000) Func (fresh_state (Some []))))))
       (get default_settings 7000 ''abc'' Func
         (snd (touch default_settings ''abc'' (example_login 9000) Func
           (snd (set_op default_settings ''abc'' (example_session 5000) Func
                  (fresh_state (Some [])))))))
     = [Connect, Query ''SELECT ?? FROM ?? WHERE ?? = ? AND ?? >= ?'', DestroyConnection,
        Callback None (Session (example_login 9000))]
   \<and> events (fresh_state (Some []))
         (touch default_settings ''abc'' (example_login 9000) Func (fresh_state (Some [])))
     = [Connect, Query ''UPDATE ?? SET ?? = ?, ?? = ? WHERE ?? = ?'', DestroyConnection,
        Callback None Omitted]
   \<and> sessions (snd (touch default_settings ''abc'' (example_login 9000) Func
                         (fresh_state (Some [])))) = Some []"
  using touch_law [where cfg = default_settings and sid = "''abc''" and callback = Func
          and s = "fresh_state (Some [])" and rows = "[]" and now = 7000
          and A = "example_session 5000" and a = 5000
          and B = "example_login 9000" and t = 9000 and e = 9000
          and j = "JObj [(''cookie'', JObj [(''expires'', JStr (IsoText 9000))]),
                         (''passport'', JObj [(''user'', JStr (Chars ''ann''))])]"]
  by (simp add: default_settings_def fresh_state_def example_session_def example_login_def
        session_payload_def user_covered_def bound_user_def extracted_expiry_def invocation_def)

section \<open>Expired and unexpired records\<close>

lemma full_packet_inj: "full_packet cn r = full_packet cn r' \<Longrightarrow> r = r'"
  by (cases r, cases r') (simp add: full_packet_def)

lemma all_result:
  assumes "reachable s" "sessions s = Some rows"
  shows "all cfg now callback s =
     (None, s\<lparr> connection := Some Disconnected,
               trace := trace s @ [Connect, Query ''SELECT * FROM ?? WHERE ?? >= ?'',
                 DestroyConnection]
                 @ invocation callback None
                     (Result (Rows (map (full_packet (columnNames cfg))
                                        (filter (\<lambda>r. now \<le> EXPIRES r) rows)))) \<rparr>)"
  using assms
  by (simp add: all_def query_reachable finalCallback_authenticated select_where_ge_def)

lemma expired_result:
  assumes "reachable s" "sessions s = Some rows"
  shows "expired cfg now callback s =
     (None, s\<lparr> connection := Some Disconnected,
               trace := trace s @ [Connect, Query ''SELECT * FROM ?? WHERE ?? < ?'',
                 DestroyConnection]
                 @ invocation callback None
                     (Result (Rows (map (full_packet (columnNames cfg))
                                        (filter (\<lambda>r. EXPIRES r < now) rows)))) \<rparr>)"
  using assms
  by (simp add: expired_def query_reachable finalCallback_authenticated select_where_lt_def)

lemma length_result:
  assumes "reachable s" "sessions s = Some rows"
  shows "length_op cfg now callback s =
     (None, s\<lparr> connection := Some Disconnected,
               trace := trace s @ [Connect, Query ''SELECT COUNT(*) AS LEN FROM ?? WHERE ?? >= ?'',
                 DestroyConnection]
                 @ invocation callback None
                     (Field (Some (CInt (int (length (filter (\<lambda>r. now \<le> EXPIRES r) rows)))))) \<rparr>)"
  using assms
  by (simp add: length_op_def query_reachable finalCallback_authenticated count_where_ge_def)

lemma expiredLength_result:
  assumes "reachable s" "sessions s = Some rows"
  shows "expiredLength cfg now callback s =
     (None, s\<lparr> connection := Some Disconnected,
               trace := trace s @ [Connect, Query ''SELECT COUNT(*) AS LEN FROM ?? WHERE ?? < ?'',
                 DestroyConnection]
                 @ invocation callback None
                     (Field (Some (CInt (int (length (filter (\<lambda>r. EXPIRES r < now) rows)))))) \<rparr>)"
  using assms
  by (simp add: expiredLength_def query_reachable finalCallback_authenticated count_where_lt_def)

text \<open>
  Claim C6, the expiry partition: on a reachable server whose table exists, at the time
  \<open>now\<close> of the query, \<open>all\<close> hands out exactly the rows whose \<open>expires\<close> is at least \<open>now\<close>
  (an empty collection, and no error, when there is none) and \<open>length\<close> their number;
  \<open>expired\<close> hands out exactly the rows whose \<open>expires\<close> is less than \<open>now\<close> and
  \<open>expiredLength\<close> their number. So a row whose \<open>expires\<close> is in the past is not among the
  rows of \<open>all\<close>, is among the rows of \<open>expired\<close>, and \<open>get\<close> for its identifier hands out
  nothing, with no error.
\<close>

theorem expiry_partition:
  assumes "reachable s" and "sessions s = Some rows" and "distinct (map SESSION_ID rows)"
  shows "fst (all cfg now callback s) = None
       \<and> events s (all cfg now callback s) =
           [Connect, Query ''SELECT * FROM ?? WHERE ?? >= ?'', DestroyConnection]
           @ invocation callback None
               (Result (Rows (map (full_packet (columnNames cfg))
                                  (filter (\<lambda>r. now \<le> EXPIRES r) rows))))
       \<and> events s (length_op cfg now callback s) =
           [Connect, Query ''SELECT COUNT(*) AS LEN FROM ?? WHERE ?? >= ?'', DestroyConnection]
           @ invocation callback None
               (Field (Some (CInt (int (length (filter (\<lambda>r. now \<le> EXPIRES r) rows))))))
       \<and> events s (expired cfg now callback s) =
           [Connect, Query ''SELECT * FROM ?? WHERE ?? < ?'', DestroyConnection]
           @ invocation callback None
               (Result (Rows (map (full_packet (columnNames cfg))
                                  (filter (\<lambda>r. EXPIRES r < now) rows))))
       \<and> events s (expiredLength cfg now callback s) =
           [Connect, Query ''SELECT COUNT(*) AS LEN FROM ?? WHERE ?? < ?'', DestroyConnection]
           @ invocation callback None
               (Field (Some (CInt (int (length (filter (\<lambda>r. EXPIRES r < now) rows))))))
       \<and> (\<forall>r \<in> set rows. EXPIRES r < now \<longrightarrow>
             full_packet (columnNames cfg) r
               \<notin> set (map (full_packet (columnNames cfg)) (filter (\<lambda>r. now \<le> EXPIRES r) rows))
           \<and> full_packet (columnNames cfg) r
               \<in> set (map (full_packet (columnNames cfg)) (filter (\<lambda>r. EXPIRES r < now) rows))
           \<and> events s (get cfg now (SESSION_ID r) callback s) =
               [Connect, Query ''SELECT ?? FROM ?? WHERE ?? = ? AND ?? >= ?'', DestroyConnection]
               @ invocation callback None Omitted)"
proof -
  have gone: "events s (get cfg now (SESSION_ID r) callback s) =
               [Connect, Query ''SELECT ?? FROM ?? WHERE ?? = ? AND ?? >= ?'', DestroyConnection]
               @ invocation callback None Omitted"
    if r: "r \<in> set rows" "EXPIRES r < now" for r
  proof -
    have "live_row rows (SESSION_ID r) now = None"
    proof (rule ccontr)
      assume "live_row rows (SESSION_ID r) now \<noteq> None"
      then obtain r' where "live_row rows (SESSION_ID r) now = Some r'" by auto
      with assms(3) have r': "r' \<in> set rows" "SESSION_ID r' = SESSION_ID r" "now \<le> EXPIRES r'"
        by (simp_all add: live_row_iff)
      with assms(3) r(1) have "r' = r"
        by (meson distinct_map inj_onD)
      with r(2) r'(3) show False by simp
    qed
    with assms show ?thesis
      by (simp add: get_result)
  qed
  have parts: "full_packet (columnNames cfg) r
               \<notin> set (map (full_packet (columnNames cfg)) (filter (\<lambda>r. now \<le> EXPIRES r) rows))
           \<and> full_packet (columnNames cfg) r
               \<in> set (map (full_packet (columnNames cfg)) (filter (\<lambda>r. EXPIRES r < now) rows))"
    if r: "r \<in> set rows" "EXPIRES r < now" for r
    using r by (auto dest: full_packet_inj)
  show ?thesis
    using assms(1,2) gone parts
    by (simp add: all_result expired_result length_result expiredLength_result)
qed

theorem expiry_partition_witness:
  "events (fresh_state (Some [new_row ''abc'' (example_session 5000) 5000 (Chars []),
                              new_row ''old'' (example_session 50) 0 (Chars [])]))
      (all default_settings 100 Func
        (fresh_state (Some [new_row ''abc'' (example_session 5000) 5000 (Chars []),
                            new_row ''old'' (example_session 50) 0 (Chars [])])))
     = [Connect, Query ''SELECT * FROM ?? WHERE ?? >= ?'', DestroyConnection,
        Callback None (Result (Rows
          [full_packet (columnNames default_settings)
             (new_row ''abc'' (example_session 5000) 5000 (Chars []))]))]
   \<and> events (fresh_state (Some [new_row ''abc'' (example_session 5000) 5000 (Chars []),
                              new_row ''old'' (example_session 50) 0 (Chars [])]))
      (expiredLength default_settings 100 Func
        (fresh_state (Some [new_row ''abc'' (example_session 5000) 5000 (Chars []),
                            new_row ''old'' (example_session 50) 0 (Chars [])])))
     = [Connect, Query ''SELECT COUNT(*) AS LEN FROM ?? WHERE ?? < ?'', DestroyConnection,
        Callback None (Field (Some (CInt 1)))]
   \<and> events (fresh_state (Some [new_row ''abc'' (example_session 5000) 5000 (Chars []),
                              new_row ''old'' (example_session 50) 0 (Chars [])]))
      (get default_settings 100 ''old'' Func
        (fresh_state (Some [new_row ''abc'' (example_session 5000) 5000 (Chars []),
                            new_row ''old'' (example_session 50) 0 (Chars [])])))
     = [Connect, Query ''SELECT ?? FROM ?? WHERE ?? = ? AND ?? >= ?'', DestroyConnection,
        Callback None Omitted]"
  using expiry_partition [where cfg = default_settings and now = 100 and callback = Func
          and s = "fresh_state (Some [new_row ''abc'' (example_session 5000) 5000 (Chars []),
                                      new_row ''old'' (example_session 50) 0 (Chars [])])"
          and rows = "[new_row ''abc'' (example_session 5000) 5000 (Chars []),
                       new_row ''old'' (example_session 50) 0 (Chars [])]"]
  by (simp add: fresh_state_def new_row_def invocation_def)

section \<open>The callback adapter\<close>

lemma query_state:
  "connection (snd (query sql statement (connectToDatabase s)))
     = Some (if reachable s then Authenticated else Disconnected)"
  "trace (snd (query sql statement (connectToDatabase s))) = trace s @ [Connect, Query sql]"
  by (simp_all add: query_def case_prod_beta)














lemma events_nil [simp]: "events s (e, s) = []"
  by (simp add: events_def)

lemma get_query_fails:
  "\<not> reachable s \<or> sessions s = None \<Longrightarrow>
   \<exists>e. fst (query sql (select_data cn sid now) (connectToDatabase s)) = Inl e"
  by (auto simp: query_def select_data_def case_prod_beta)

lemma get_after_failure:
  "fst (query ''SELECT ?? FROM ?? WHERE ?? = ? AND ?? >= ?''
          (select_data (columnNames cfg) sid now) (connectToDatabase s)) = Inl e \<Longrightarrow>
   fst (get cfg now sid callback s) = None"
  by (simp add: get_def case_prod_beta finalCallback_connected [OF query_state(1)])

lemma get_raises_only:
  assumes "fst (get cfg now sid callback s) \<noteq> None"
  shows "reachable s \<and> (\<exists>rows r. sessions s = Some rows
           \<and> filter (\<lambda>r. SESSION_ID r = sid \<and> now \<le> EXPIRES r) rows = [r]
           \<and> (data (columnNames cfg) \<noteq> Chars ''DATA'' \<or> deserialized (DATA r) = None))"
proof -
  have "\<not> (\<not> reachable s \<or> sessions s = None)"
  proof
    assume "\<not> reachable s \<or> sessions s = None"
    from get_query_fails [OF this] obtain e where
      "fst (query ''SELECT ?? FROM ?? WHERE ?? = ? AND ?? >= ?''
              (select_data (columnNames cfg) sid now) (connectToDatabase s)) = Inl e"
      by blast
    from get_after_failure [OF this] assms show False by simp
  qed
  then have r: "reachable s" and "sessions s \<noteq> None" by simp_all
  then obtain rows where rows: "sessions s = Some rows" by auto
  let ?hits = "filter (\<lambda>r. SESSION_ID r = sid \<and> now \<le> EXPIRES r) rows"
  let ?q = "query ''SELECT ?? FROM ?? WHERE ?? = ? AND ?? >= ?''
              (select_data (columnNames cfg) sid now) (connectToDatabase s)"
  have fq: "fst ?q = Inr (Rows (map (\<lambda>r. [(data (columnNames cfg), CText (DATA r))]) ?hits))"
    using r rows by (simp add: query_reachable select_data_def)
  have g: "get cfg now sid callback s =
     (case map (\<lambda>r. [(data (columnNames cfg), CText (DATA r))]) ?hits of
        [p] \<Rightarrow>
          (case JSON_parse (map_of p (Chars ''DATA'')) of
             Inl e \<Rightarrow> (Some e, snd ?q)
           | Inr parsed \<Rightarrow>
              (case restore_expires parsed of
                 Inl e \<Rightarrow> (Some e, snd ?q)
               | Inr v \<Rightarrow> finalCallback callback None (Session v) (snd ?q)))
      | _ \<Rightarrow> finalCallback callback None Omitted (snd ?q))"
    using fq by (simp add: get_def case_prod_beta)
  have fin: "fst (finalCallback callback e d (snd ?q)) = None" for e d
    by (simp add: finalCallback_connected [OF query_state(1)])
  from assms g fin obtain r0 where hits: "?hits = [r0]"
    by (cases ?hits rule: list.exhaust; cases "tl ?hits") (auto split: list.splits)
  have "data (columnNames cfg) \<noteq> Chars ''DATA'' \<or> deserialized (DATA r0) = None"
  proof (rule ccontr)
    assume "\<not> ?thesis"
    then obtain v where "data (columnNames cfg) = Chars ''DATA''" "deserialized (DATA r0) = Some v"
      by auto
    with assms g fin hits show False
      by (auto simp: deserialized_def split: sum.splits)
  qed
  with r rows hits show ?thesis by blast
qed




section \<open>A session without a user\<close>

text \<open>
  Claim C9 says that for a session without \<open>passport.user\<close> the insert is rejected by the
  database, because \<open>set\<close> binds \<^verbatim>\<open>NULL\<close> for a column declared \<^verbatim>\<open>not null\<close>, and that
  \<open>set\<close> reports an error. The statement is an \<^verbatim>\<open>INSERT IGNORE\<close>, for which the server
  turns this error into a warning: on the table \<open>createTable\<close> made, the row is stored with
  the empty string as user, and the continuation is called with no error.
\<close>

theorem set_without_user_is_stored:
  "bound_user (example_session 5000) = SqlNull
   \<and> list_all not_null (declared_columns (columnNames default_settings))
   \<and> set_op default_settings ''abc'' (example_session 5000) Func
         (snd (createTable default_settings Func (fresh_state None)))
     = (None,
        \<lparr> reachable = True,
          sessions = Some [\<lparr> SESSION_ID = ''abc'', EXPIRES = 5000,
                             DATA = Doc (JObj [(''cookie'', JObj [(''expires'', JStr (IsoText 5000)),
                                                                   (''path'', JStr (Chars ''/''))]),
                                               (''views'', JNum 1)]),
                             USER = Chars [] \<rparr>],
          connection = Some Disconnected,
          trace = [Connect, Query ''CREATE TABLE IF NOT EXISTS ?? (?? varchar(128) primary key not null, ?? bigint not null, ?? mediumtext not null, ?? varchar(255) not null)'',
                   DestroyConnection, Callback None Omitted,
                   Connect, Query ''INSERT IGNORE INTO ?? (??, ??, ??, ??) VALUES (?, ?, ?, ?)'',
                   DestroyConnection, Callback None Omitted] \<rparr>)"
  by (simp add: set_op_def createTable_def query_def connectToDatabase_def finalCallback_def
        closeDatabaseConnection_def insert_ignore_def create_table_if_not_exists_def on_table_def
        error_of_def bound_user_def declared_columns_def
        default_settings_def fresh_state_def example_session_def)

text \<open>
  Claim C9 as amended: for a session without \<open>passport.user\<close> (and with a readable cookie
  expiry), \<open>set\<close> binds \<^verbatim>\<open>NULL\<close> for the user column, which \<open>createTable\<close> declares
  \<^verbatim>\<open>not null\<close> like every column; since the statement is an \<^verbatim>\<open>INSERT IGNORE\<close>, on a
  reachable server with the table present and no row for the session identifier the row is
  stored with the empty string as user, and \<open>set\<close> reports no error.
\<close>

theorem set_binds_null_user:
  assumes "reachable s" and "sessions s = Some rows" and "sid \<notin> SESSION_ID ` set rows"
    and "extracted_expiry session = Some e"
    and "opt_chain (opt_chain session ''passport'') ''user'' = Undefined"
  shows "bound_user session = SqlNull
       \<and> list_all not_null (declared_columns (columnNames cfg))
       \<and> set_op cfg sid session callback s =
           (None, s\<lparr> sessions := Some (rows @ [new_row sid session e (Chars [])]),
                     connection := Some Disconnected,
                     trace := trace s @ [Connect,
                       Query ''INSERT IGNORE INTO ?? (??, ??, ??, ??) VALUES (?, ?, ?, ?)'',
                       DestroyConnection] @ invocation callback None Omitted \<rparr>)"
proof -
  from assms(5) have b: "bound_user session = SqlNull"
    by (simp add: bound_user_def)
  then have u: "stored_user (bound_user session) = Inr (Chars [])" by simp
  from set_op_result [OF assms(1,2,4) u, of cfg sid callback] assms(3) b show ?thesis
    by (simp add: declared_columns_def)
qed

theorem set_binds_null_user_witness:
  "events (fresh_state (Some []))
      (set_op default_settings ''abc'' (example_session 5000) Func (fresh_state (Some [])))
     = [Connect, Query ''INSERT IGNORE INTO ?? (??, ??, ??, ??) VALUES (?, ?, ?, ?)'',
        DestroyConnection, Callback None Omitted]
   \<and> sessions (snd (set_op default_settings ''abc'' (example_session 5000) Func
                         (fresh_state (Some []))))
     = Some [new_row ''abc'' (example_session 5000) 5000 (Chars [])]"
  using set_binds_null_user [where cfg = default_settings and sid = "''abc''" and callback = Func
          and s = "fresh_state (Some [])" and rows = "[]" and e = 5000
          and session = "example_session 5000"]
  by (simp add: fresh_state_def example_session_def extracted_expiry_def invocation_def)

section \<open>Further facts\<close>

text \<open>The rows \<open>set\<close> and \<open>touch\<close> write are rows \<open>get\<close> can hand back.\<close>

lemma new_row_readable:
  "extracted_expiry session = Some e \<Longrightarrow> readable (new_row sid session e u)"
  using extracted_deserializes [of session e]
  by (auto simp: readable_def new_row_def)

lemma touched_readable:
  "extracted_expiry session = Some e \<Longrightarrow> stringify session = Some j \<Longrightarrow> readable r \<Longrightarrow>
   readable (touched sid j e r)"
  using extracted_deserializes [of session e]
  by (auto simp: readable_def touched_def)

text \<open>
  The expiry \<open>set\<close> stores for a cookie that expires at 10.5 seconds is 10 seconds: at
  10.2 seconds \<open>get\<close> hands out nothing.
\<close>

lemma expiry_cut_to_seconds:
  "extracted_expiry (example_session 10500) = Some 10000
   \<and> events (snd (set_op default_settings ''abc'' (example_session 10500) Func (fresh_state (Some []))))
        (get default_settings 10200 ''abc'' Func
          (snd (set_op default_settings ''abc'' (example_session 10500) Func (fresh_state (Some [])))))
     = [Connect, Query ''SELECT ?? FROM ?? WHERE ?? = ? AND ?? >= ?'', DestroyConnection,
        Callback None Omitted]"
  by (simp add: events_def set_op_def get_def query_def connectToDatabase_def finalCallback_def
        closeDatabaseConnection_def insert_ignore_def select_data_def on_table_def error_of_def
        extracted_expiry_def default_settings_def fresh_state_def example_session_def)

text \<open>
  The store keeps one reference to a connection, \<open>this.connection\<close>, which every operation
  overwrites. When a second operation starts before the reply to the first one is handled,
  the \<open>finalCallback\<close> of the first one destroys the connection of the second, and its own
  connection is never destroyed: of two connections made, one is closed. (What the client
  library does with the reply to the second statement is not modelled.)
\<close>

lemma overlapping_operations:
  "trace (snd (finalCallback Func None Omitted
       (snd (query ''DELETE FROM ?? WHERE ?? = ?'' (delete_by_id ''b'')
          (connectToDatabase
             (snd (query ''DELETE FROM ?? WHERE ?? = ?'' (delete_by_id ''a'')
                (connectToDatabase (fresh_state (Some []))))))))))
     = [Connect, Query ''DELETE FROM ?? WHERE ?? = ?'',
        Connect, Query ''DELETE FROM ?? WHERE ?? = ?'',
        DestroyConnection, Callback None Omitted]
   \<and> connection (snd (finalCallback Func None Omitted
       (snd (query ''DELETE FROM ?? WHERE ?? = ?'' (delete_by_id ''b'')
          (connectToDatabase
             (snd (query ''DELETE FROM ?? WHERE ?? = ?'' (delete_by_id ''a'')
                (connectToDatabase (fresh_state (Some []))))))))))
     = Some Disconnected"
  by (simp add: finalCallback_def closeDatabaseConnection_def query_def connectToDatabase_def
        delete_by_id_def delete_where_def on_table_def fresh_state_def)

text \<open>
  A port of \<open>10^21\<close> is written \<open>1e+21\<close>, from which \<open>parseInt\<close> reads 1; the digits
  \<open>9007199254740993\<close> denote the double \<open>9007199254740992\<close>.
\<close>

lemma parseInt_exponent: "parseInt (Num 1000000000000000000000) = Num 1"
proof -
  have bl: "bit_length 1000000000000000000000 = 70"
    by (simp add: bit_length.simps)
  have nd: "nearest_double 1000000000000000000000 = Some 1000000000000000000000"
    by (simp add: nearest_double_def bl)
  have dc: "digit_count 1000000000000000000000 = 22"
    by (simp add: digit_count.simps)
  have c1: "candidates 1000000000000000000000 (Suc 0)
              = [1000000000000000000000, 2000000000000000000000]"
    by (simp add: candidates_def dc)
  have sn: "shortest_numeral 1000000000000000000000 = 1000000000000000000000"
    by (simp add: shortest_numeral_def upt_rec c1 nd)
  have ig: "integral 1000000000000000000000 = Num 1000000000000000000000"
    by (simp add: integral_def nd sn)
  show ?thesis
    by (simp add: ig leading_digit.simps)
qed

lemma parseInt_rounds: "parseInt_chars ''9007199254740993'' = Num 9007199254740992"
proof -
  have dv: "digits_value ''9007199254740993'' = 9007199254740993"
    by (simp add: digits_value_def digit_value_def)
  have nd: "nearest_double 9007199254740993 = Some 9007199254740992"
    by (simp add: nearest_double_def bit_length.simps)
  have sn: "shortest_numeral 9007199254740992 = 9007199254740992"
    by (simp add: shortest_numeral_def upt_rec candidates_def digit_count.simps
          nearest_double_def bit_length.simps)
  have ig: "integral 9007199254740993 = Num 9007199254740992"
    by (simp add: integral_def nd sn)
  show ?thesis
    by (simp add: parseInt_chars_def is_space_def is_digit_def dv ig)
qed

text \<open>The constants in \<open>Date_parse\<close>, and some of its values.\<close>

lemma year_starts:
  "days_from_civil 0 1 * 86400000 = - 62167219200000"
  "days_from_civil 50 1 * 86400000 = - 60589296000000"
  "days_from_civil 100 1 * 86400000 = - 59011459200000"
  "(days_from_civil 2000 1 - days_from_civil 0 1) * 86400000 = 63113904000000"
  "(days_from_civil 1950 1 - days_from_civil 50 1) * 86400000 = 59958144000000"
  by (simp_all add: days_from_civil_def)

lemma Date_parse_examples:
  "Date_parse (DateObj (Some (- 62135596800000))) = Some 978307200000"
  "Date_parse (DateObj (Some (- 62167219200001))) = None"
  "Date_parse (DateObj (Some 10500)) = Some 10000"
  "Date_parse (Num 5000) = Some 95617584000000"
  "Date_parse (Num 12) = Some 1007164800000"
  "Date_parse (Num 13) = None"
  "Date_parse Null = None"
  by (simp_all add: integral_def legacy_date_def first9.simps days_from_civil_def
        two_digit_year_def time_clip_def)

text \<open>
  The data column of a store is the caller's option when that is a string that is not
  empty (an empty string gives the default, \<open>DATA\<close>).
\<close>

lemma constructed_data_column:
  assumes "AuthExpressStore e opts = Inr cfg"
    and "opt_chain (opt_chain opts ''columnNames'') ''data'' = Str d" and "truthy (Str d)"
  shows "data (columnNames cfg) = d"
proof -
  have r: "data (columnNames (resolve e opts)) = Str d"
    using assms(2,3) by (simp add: resolve_def js_or_def)
  from assms(1) have "find offending (field_checks (resolve e opts)) = None"
    by (cases "find offending (field_checks (resolve e opts))")
       (auto simp: AuthExpressStore_def sanitize_cases)
  with assms(1) have "data (columnNames cfg) = string_of (data (columnNames (resolve e opts)))"
    by (auto simp: AuthExpressStore_def sanitize_cases)
  with r show ?thesis by (simp add: string_of_def)
qed

end
